theory Spec2Isabelle
  imports Complex_Main "HOL-Library.Sublist" "HOL-Library.AList"
begin


section \<open>Strings\<close>

text \<open>
  A Python \<open>str\<close> is modelled as a \<open>string\<close>, one \<open>char\<close> per code point below 256.
  \<open>str.upper()\<close> is modelled on this range: the ASCII letters and the accented letters
  of Latin-1 go to their capitals, the sharp s (code point 223) becomes \<open>SS\<close>, and every
  other character stays. (The micro sign, 181, and the y with diaeresis, 255, have
  capitals above 255 and stay as they are.) Python's \<open>keyword in s\<close> on strings is the
  contiguous-substring test \<open>sublist\<close>.
\<close>

definition ascii_upper_char :: "char \<Rightarrow> char" where
  "ascii_upper_char c =
     (case map_of (zip ''abcdefghijklmnopqrstuvwxyz'' ''ABCDEFGHIJKLMNOPQRSTUVWXYZ'') c of
        Some u \<Rightarrow> u
      | None \<Rightarrow> c)"

text \<open>SQLite folds the case of ASCII letters only, in names and in \<open>LIKE\<close>.\<close>

definition ascii_upper :: "string \<Rightarrow> string" where
  "ascii_upper s = map ascii_upper_char s"

definition latin1_small :: string where
  "latin1_small =
     [CHR 0xE0, CHR 0xE1, CHR 0xE2, CHR 0xE3, CHR 0xE4, CHR 0xE5, CHR 0xE6, CHR 0xE7,
      CHR 0xE8, CHR 0xE9, CHR 0xEA, CHR 0xEB, CHR 0xEC, CHR 0xED, CHR 0xEE, CHR 0xEF,
      CHR 0xF0, CHR 0xF1, CHR 0xF2, CHR 0xF3, CHR 0xF4, CHR 0xF5, CHR 0xF6,
      CHR 0xF8, CHR 0xF9, CHR 0xFA, CHR 0xFB, CHR 0xFC, CHR 0xFD, CHR 0xFE]"

definition latin1_capital :: string where
  "latin1_capital =
     [CHR 0xC0, CHR 0xC1, CHR 0xC2, CHR 0xC3, CHR 0xC4, CHR 0xC5, CHR 0xC6, CHR 0xC7,
      CHR 0xC8, CHR 0xC9, CHR 0xCA, CHR 0xCB, CHR 0xCC, CHR 0xCD, CHR 0xCE, CHR 0xCF,
      CHR 0xD0, CHR 0xD1, CHR 0xD2, CHR 0xD3, CHR 0xD4, CHR 0xD5, CHR 0xD6,
      CHR 0xD8, CHR 0xD9, CHR 0xDA, CHR 0xDB, CHR 0xDC, CHR 0xDD, CHR 0xDE]"

definition upper_char :: "char \<Rightarrow> string" where
  "upper_char c =
     (if c = CHR 0xDF then ''SS''
      else case map_of (zip (''abcdefghijklmnopqrstuvwxyz'' @ latin1_small)
                            (''ABCDEFGHIJKLMNOPQRSTUVWXYZ'' @ latin1_capital)) c of
             Some u \<Rightarrow> [u]
           | None \<Rightarrow> [c])"

definition upper :: "string \<Rightarrow> string" where
  "upper s = concat (map upper_char s)"

definition apostrophe :: string where
  "apostrophe = [CHR 0x27]"

text \<open>\<open>str(n)\<close> for a natural number.\<close>

function decimal :: "nat \<Rightarrow> string" where
  "decimal n = (if n < 10 then [''0123456789'' ! n] else decimal (n div 10) @ [''0123456789'' ! (n mod 10)])"
  by pat_completeness auto
termination
  by (relation "measure id") auto

declare decimal.simps [simp del]


section \<open>Column classification (the badge colour of \<open>get_schema\<close>)\<close>

text \<open>\<open>any(keyword in col_type for keyword in keywords)\<close>\<close>

definition any_keyword :: "string list \<Rightarrow> string \<Rightarrow> bool" where
  "any_keyword keywords col_type = list_ex (\<lambda>keyword. sublist keyword col_type) keywords"

text \<open>\<open>col_type = row[2].upper() if row[2] else ''\<close>: \<open>None\<close> and the empty string are falsy.\<close>

definition col_type_of :: "string option \<Rightarrow> string" where
  "col_type_of declared =
     (case declared of None \<Rightarrow> '''' | Some t \<Rightarrow> if t = '''' then '''' else upper t)"

text \<open>The \<open>if\<close>/\<open>elif\<close> chain that picks the bootstrap colour class.\<close>

definition color_class_of :: "string \<Rightarrow> string" where
  "color_class_of col_type =
     (if any_keyword [''INT'', ''REAL'', ''NUM''] col_type then ''primary''
      else if any_keyword [''CHAR'', ''TEXT'', ''CLOB''] col_type then ''success''
      else if any_keyword [''DATE'', ''TIME''] col_type then ''warning''
      else if any_keyword [''BLOB'', ''BOOL''] col_type then ''info''
      else ''secondary'')"

text \<open>
  The specification's reading of the same step: a display category chosen by
  case-insensitive substring matching, in a fixed precedence. \<open>category_color\<close> is the
  colour class under which the program shows each category.
\<close>

datatype display_category = Numeric | Text | Temporal | BinaryOrBoolean | Unknown

definition contains_ci :: "string \<Rightarrow> string \<Rightarrow> bool" where
  "contains_ci keyword s = sublist (upper keyword) (upper s)"

definition classify_spec :: "string option \<Rightarrow> display_category" where
  "classify_spec declared =
     (let s = (case declared of None \<Rightarrow> '''' | Some t \<Rightarrow> t) in
      if list_ex (\<lambda>k. contains_ci k s) [''INT'', ''REAL'', ''NUM''] then Numeric
      else if list_ex (\<lambda>k. contains_ci k s) [''CHAR'', ''TEXT'', ''CLOB''] then Text
      else if list_ex (\<lambda>k. contains_ci k s) [''DATE'', ''TIME''] then Temporal
      else if list_ex (\<lambda>k. contains_ci k s) [''BLOB'', ''BOOL''] then BinaryOrBoolean
      else Unknown)"

fun category_color :: "display_category \<Rightarrow> string" where
  "category_color Numeric = ''primary''"
| "category_color Text = ''success''"
| "category_color Temporal = ''warning''"
| "category_color BinaryOrBoolean = ''info''"
| "category_color Unknown = ''secondary''"


section \<open>The database driver\<close>

text \<open>
  The program talks to SQLite through Python's \<open>sqlite3\<close> module, which is not part of
  the repository. The driver is therefore a parameter: a record of the operations the
  program invokes, over a type \<open>'db\<close> of database files at rest and a type \<open>'c\<close> of
  open connections. Every operation may raise; an exception is a value.
\<close>

datatype exn =
    SqliteError string  \<comment> \<open>\<open>sqlite3.Error\<close> and its subclasses, with \<open>str(e)\<close>\<close>
  | ValueError string
  | KeyError string
  | OtherError string   \<comment> \<open>any other exception\<close>

datatype cell = CNull | CInt int | CReal real | CText string | CBlob string

text \<open>
  What a cursor holds after \<open>execute\<close> and \<open>fetchall\<close>: \<open>cur.description\<close> reduced to the
  column names (\<open>description[0]\<close> of each entry; \<open>None\<close> when the statement has no result
  set) and the fetched rows.
\<close>

record result_set =
  description :: "string list option"
  fetched :: "cell list list"

text \<open>A row of \<open>PRAGMA table_info\<close>: \<open>(cid, name, type, notnull, dflt_value, pk)\<close>.\<close>

record table_info_row =
  ti_cid :: nat
  ti_name :: string
  ti_type :: "string option"
  ti_notnull :: bool
  ti_dflt_value :: "string option"
  ti_pk :: nat

text \<open>A column of a \<open>CREATE TABLE\<close> statement.\<close>

record column_def =
  cd_name :: string
  cd_type :: string
  cd_autoincrement :: bool  \<comment> \<open>\<open>PRIMARY KEY AUTOINCREMENT\<close>\<close>

text \<open>
  \<^item> \<open>connect path db\<close>: \<open>sqlite3.connect(path)\<close> on the file whose content is \<open>db\<close>;
  \<^item> \<open>durable c\<close>: the content of the file as connection \<open>c\<close> leaves it (what has been
    committed; closing a connection discards the rest);
  \<^item> \<open>execute sql c\<close>: \<open>cur.execute(sql)\<close> followed by \<open>cur.fetchall()\<close>, for SQL text
    passed verbatim;
  \<^item> \<open>select_user_tables c\<close>: the catalogue query
    \<open>SELECT name FROM sqlite_master WHERE type='table' AND name NOT LIKE 'sqlite_%'\<close>
    with its \<open>fetchall\<close>, each row reduced to \<open>row[0]\<close>;
  \<^item> \<open>pragma_table_info arg c\<close>: \<open>PRAGMA table_info(arg)\<close> with its \<open>fetchall\<close>, where
    \<open>arg\<close> is the text the program puts between the parentheses;
  \<^item> \<open>drop_table_if_exists t c\<close>: \<open>DROP TABLE IF EXISTS t\<close>;
  \<^item> \<open>create_table t cols c\<close>: \<open>CREATE TABLE t (cols)\<close>;
  \<^item> \<open>insert_many t names params c\<close>:
    \<open>cur.executemany("INSERT INTO t (names) VALUES (?, ...)", params)\<close>;
  \<^item> \<open>commit c\<close>: \<open>conn.commit()\<close>.
\<close>

record ('db, 'c) driver =
  connect :: "string \<Rightarrow> 'db \<Rightarrow> exn + 'c"
  durable :: "'c \<Rightarrow> 'db"
  execute :: "string \<Rightarrow> 'c \<Rightarrow> (exn + result_set) \<times> 'c"
  select_user_tables :: "'c \<Rightarrow> (exn + string list) \<times> 'c"
  pragma_table_info :: "string \<Rightarrow> 'c \<Rightarrow> (exn + table_info_row list) \<times> 'c"
  drop_table_if_exists :: "string \<Rightarrow> 'c \<Rightarrow> (exn + unit) \<times> 'c"
  create_table :: "string \<Rightarrow> column_def list \<Rightarrow> 'c \<Rightarrow> (exn + unit) \<times> 'c"
  insert_many :: "string \<Rightarrow> string list \<Rightarrow> cell list list \<Rightarrow> 'c \<Rightarrow> (exn + unit) \<times> 'c"
  commit :: "'c \<Rightarrow> (exn + unit) \<times> 'c"

text \<open>
  The world outside the program: the content of every database file, by path, and how
  many connections have been opened and closed so far. The connections open at a given
  moment are \<open>opened - closed\<close>.
\<close>

record 'db world =
  files :: "string \<Rightarrow> 'db"
  opened :: nat
  closed :: nat

text \<open>\<open>conn.close()\<close> on the connection \<open>c\<close> to the file at \<open>path\<close>.\<close>

definition conn_close :: "('db, 'c) driver \<Rightarrow> string \<Rightarrow> 'c \<Rightarrow> 'db world \<Rightarrow> 'db world" where
  "conn_close drv path c w =
     w\<lparr>files := (files w)(path := durable drv c), closed := closed w + 1\<rparr>"

text \<open>
  Leaving a function with the connection \<open>c\<close> still open: the file keeps what the
  connection made durable, and nothing is counted as closed.
\<close>

definition conn_abandon :: "('db, 'c) driver \<Rightarrow> string \<Rightarrow> 'c \<Rightarrow> 'db world \<Rightarrow> 'db world" where
  "conn_abandon drv path c w = w\<lparr>files := (files w)(path := durable drv c)\<rparr>"

section \<open>The registry and \<open>get_connection\<close>\<close>

text \<open>
  \<open>DATABASES\<close> maps each database name to the path of its file under \<open>BASE_DIR\<close>, the
  directory of the script, known only at run time. A dictionary is an association list
  in insertion order.
\<close>

definition DATABASES :: "string \<Rightarrow> (string \<times> string) list" where
  "DATABASES base_dir =
     [(''flights'', base_dir @ ''/flights.db''),
      (''transactions'', base_dir @ ''/transactions.db'')]"

definition get_connection ::
  "(string \<times> string) list \<Rightarrow> ('db, 'c) driver \<Rightarrow> string \<Rightarrow> 'db world
     \<Rightarrow> (exn + string \<times> 'c) \<times> 'db world" where
  "get_connection registry drv db_name w =
     (case map_of registry db_name of
        None \<Rightarrow>
          (Inl (ValueError (''Database '' @ apostrophe @ db_name @ apostrophe @ '' not found.'')), w)
      | Some path \<Rightarrow>
          (case connect drv path (files w path) of
             Inl e \<Rightarrow> (Inl e, w)
           | Inr c \<Rightarrow> (Inr (path, c), w\<lparr>opened := opened w + 1\<rparr>)))"

section \<open>\<open>query_database\<close>\<close>

record query_result =
  success :: bool
  columns :: "string list"
  data :: "cell list list"
  error :: "string option"

text \<open>The dictionary returned by the \<open>except sqlite3.Error as e\<close> branch.\<close>

definition error_result :: "string \<Rightarrow> query_result" where
  "error_result msg = \<lparr>success = False, columns = [], data = [], error = Some msg\<rparr>"

text \<open>
  \<open>except sqlite3.Error\<close> catches \<open>SqliteError\<close> only; every other exception leaves the
  function. The \<open>finally\<close> block closes the connection when \<open>conn\<close> was bound, that is,
  when \<open>get_connection\<close> returned.
\<close>

definition handle_exn :: "exn \<Rightarrow> exn + query_result" where
  "handle_exn e = (case e of SqliteError msg \<Rightarrow> Inr (error_result msg) | _ \<Rightarrow> Inl e)"

definition query_database ::
  "(string \<times> string) list \<Rightarrow> ('db, 'c) driver \<Rightarrow> string \<Rightarrow> string \<Rightarrow> 'db world
     \<Rightarrow> (exn + query_result) \<times> 'db world" where
  "query_database registry drv db_name query w =
     (case get_connection registry drv db_name w of
        (Inl e, w1) \<Rightarrow> (handle_exn e, w1)
      | (Inr (path, c), w1) \<Rightarrow>
          (case execute drv query c of
             (Inl e, c1) \<Rightarrow> (handle_exn e, conn_close drv path c1 w1)
           | (Inr cur, c1) \<Rightarrow>
               (let column_names = (case description cur of None \<Rightarrow> [] | Some d \<Rightarrow> d);
                    rows = fetched cur
                in (Inr \<lparr>success = True, columns = column_names, data = rows, error = None\<rparr>,
                    conn_close drv path c1 w1))))"

section \<open>\<open>get_schema\<close>\<close>

text \<open>The HTML string built for one row of \<open>PRAGMA table_info\<close>.\<close>

definition html_repr :: "table_info_row \<Rightarrow> string" where
  "html_repr row =
     (let col_name = ti_name row;
          col_type = col_type_of (ti_type row);
          color_class = color_class_of col_type
      in col_name @ '' <span class='badge bg-'' @ color_class @ '' ms-1'>'' @ col_type
           @ ''</span>'')"

text \<open>\<open>for row in rows: ... columns_with_types.append(html_repr)\<close>\<close>

fun columns_loop :: "table_info_row list \<Rightarrow> string list \<Rightarrow> string list" where
  "columns_loop [] columns_with_types = columns_with_types"
| "columns_loop (row # rows) columns_with_types =
     columns_loop rows (columns_with_types @ [html_repr row])"

text \<open>
  \<open>for table in tables\<close>, on the connection \<open>c\<close>. The dictionary object stored at
  \<open>schema[db_name]\<close> is the accumulator \<open>tables_dict\<close>, empty when the loop starts;
  \<open>d[table] = v\<close> on a dictionary is \<open>AList.update\<close>.
\<close>

fun tables_loop ::
  "('db, 'c) driver \<Rightarrow> string list \<Rightarrow> 'c \<Rightarrow> (string \<times> string list) list
     \<Rightarrow> (exn + (string \<times> string list) list) \<times> 'c" where
  "tables_loop drv [] c tables_dict = (Inr tables_dict, c)"
| "tables_loop drv (table # tables) c tables_dict =
     (case pragma_table_info drv (apostrophe @ table @ apostrophe) c of
        (Inl e, c1) \<Rightarrow> (Inl e, c1)
      | (Inr rows, c1) \<Rightarrow>
          tables_loop drv tables c1 (AList.update table (columns_loop rows []) tables_dict))"

type_synonym schema = "(string \<times> (string \<times> string list) list) list"

text \<open>
  \<open>for db_name, db_path in DATABASES.items()\<close>. An exception raised while the connection
  is in use leaves the function at once: \<open>conn.close()\<close> is the last statement of the
  loop body and is not reached.
\<close>

fun databases_loop ::
  "('db, 'c) driver \<Rightarrow> (string \<times> string) list \<Rightarrow> 'db world \<Rightarrow> schema
     \<Rightarrow> (exn + schema) \<times> 'db world" where
  "databases_loop drv [] w schema = (Inr schema, w)"
| "databases_loop drv ((db_name, db_path) # rest) w schema =
     (let schema1 = AList.update db_name [] schema in
      case connect drv db_path (files w db_path) of
        Inl e \<Rightarrow> (Inl e, w)
      | Inr c \<Rightarrow>
          (let w1 = w\<lparr>opened := opened w + 1\<rparr> in
           case select_user_tables drv c of
             (Inl e, c1) \<Rightarrow> (Inl e, conn_abandon drv db_path c1 w1)
           | (Inr tables, c1) \<Rightarrow>
               (case tables_loop drv tables c1 [] of
                  (Inl e, c2) \<Rightarrow> (Inl e, conn_abandon drv db_path c2 w1)
                | (Inr tables_dict, c2) \<Rightarrow>
                    databases_loop drv rest (conn_close drv db_path c2 w1)
                      (AList.update db_name tables_dict schema1))))"

definition get_schema ::
  "(string \<times> string) list \<Rightarrow> ('db, 'c) driver \<Rightarrow> 'db world \<Rightarrow> (exn + schema) \<times> 'db world" where
  "get_schema registry drv w = databases_loop drv registry w []"

section \<open>\<open>create_example_databases\<close>\<close>

definition plain_column :: "string \<Rightarrow> string \<Rightarrow> column_def" where
  "plain_column n t = \<lparr>cd_name = n, cd_type = t, cd_autoincrement = False\<rparr>"

definition key_column :: "string \<Rightarrow> column_def" where
  "key_column n = \<lparr>cd_name = n, cd_type = ''INTEGER'', cd_autoincrement = True\<rparr>"

definition flights_columns :: "column_def list" where
  "flights_columns =
     [key_column ''flight_id'',
      plain_column ''airline'' ''TEXT'',
      plain_column ''origin'' ''TEXT'',
      plain_column ''destination'' ''TEXT'',
      plain_column ''departure_date'' ''TEXT'',
      plain_column ''arrival_date'' ''TEXT'',
      plain_column ''status'' ''TEXT'',
      plain_column ''price'' ''REAL'']"

definition flights_insert_columns :: "string list" where
  "flights_insert_columns =
     [''airline'', ''origin'', ''destination'', ''departure_date'', ''arrival_date'',
      ''status'', ''price'']"

text \<open>City names with a letter outside ASCII, by code point.\<close>

definition Sao_Paulo :: string where
  "Sao_Paulo = ''S'' @ [CHR 0xE3] @ ''o Paulo''"

definition Brasilia :: string where
  "Brasilia = ''Bras'' @ [CHR 0xED] @ ''lia''"

definition flight ::
  "string \<Rightarrow> string \<Rightarrow> string \<Rightarrow> string \<Rightarrow> string \<Rightarrow> string \<Rightarrow> real \<Rightarrow> cell list" where
  "flight airline origin destination departure arrival status price =
     [CText airline, CText origin, CText destination, CText departure, CText arrival,
      CText status, CReal price]"

definition flights_data :: "cell list list" where
  "flights_data =
     [flight ''Air Blue'' Sao_Paulo ''Rio de Janeiro'' ''2025-01-10'' ''2025-01-10'' ''On Time'' 150,
      flight ''Air Green'' ''Rio de Janeiro'' Sao_Paulo ''2025-01-11'' ''2025-01-11'' ''Delayed'' 200,
      flight ''Air Red'' Brasilia Sao_Paulo ''2025-02-05'' ''2025-02-05'' ''Cancelled'' 300,
      flight ''Air Blue'' Sao_Paulo Brasilia ''2025-03-15'' ''2025-03-15'' ''On Time'' 220,
      flight ''Air Green'' ''Curitiba'' Sao_Paulo ''2025-04-20'' ''2025-04-20'' ''On Time'' 180,
      flight ''Air Red'' Sao_Paulo ''Curitiba'' ''2025-05-30'' ''2025-05-30'' ''On Time'' 160,
      flight ''Air Yellow'' ''Rio de Janeiro'' Brasilia ''2025-06-12'' ''2025-06-12'' ''Delayed'' 250,
      flight ''Air Blue'' Brasilia ''Rio de Janeiro'' ''2025-07-22'' ''2025-07-22'' ''On Time'' 210,
      flight ''Air Yellow'' ''Curitiba'' ''Rio de Janeiro'' ''2025-08-05'' ''2025-08-05'' ''Cancelled'' 230,
      flight ''Air Green'' Sao_Paulo ''Curitiba'' ''2025-09-10'' ''2025-09-10'' ''On Time'' 190]"

definition transactions_columns :: "column_def list" where
  "transactions_columns =
     [key_column ''transaction_id'',
      plain_column ''date'' ''TEXT'',
      plain_column ''merchant'' ''TEXT'',
      plain_column ''category'' ''TEXT'',
      plain_column ''amount'' ''REAL'',
      plain_column ''card_type'' ''TEXT'',
      plain_column ''location'' ''TEXT'']"

definition transactions_insert_columns :: "string list" where
  "transactions_insert_columns =
     [''date'', ''merchant'', ''category'', ''amount'', ''card_type'', ''location'']"

definition transaction ::
  "string \<Rightarrow> string \<Rightarrow> string \<Rightarrow> real \<Rightarrow> string \<Rightarrow> string \<Rightarrow> cell list" where
  "transaction date merchant category amount card_type location =
     [CText date, CText merchant, CText category, CReal amount, CText card_type,
      CText location]"

definition transactions_data :: "cell list list" where
  "transactions_data =
     [transaction ''2025-01-15'' ''Supermercado SP'' ''Groceries'' 120.50 ''Visa'' Sao_Paulo,
      transaction ''2025-01-20'' ''Restaurante RJ'' ''Dining'' 80.75 ''MasterCard'' ''Rio de Janeiro'',
      transaction ''2025-02-12'' ''Posto de Gasolina'' ''Fuel'' 50.00 ''Visa'' Brasilia,
      transaction ''2025-02-28'' ''Loja de Roupas'' ''Clothing'' 200.00 ''Amex'' ''Curitiba'',
      transaction ''2025-03-10'' ''Cinema SP'' ''Entertainment'' 45.00 ''Visa'' Sao_Paulo,
      transaction ''2025-04-05'' (''Farm'' @ [CHR 0xE1] @ ''cia RJ'') ''Pharmacy'' 60.00 ''MasterCard''
        ''Rio de Janeiro'',
      transaction ''2025-05-14'' ''Academia'' ''Fitness'' 120.00 ''Amex'' Sao_Paulo,
      transaction ''2025-06-18'' ''Livraria'' ''Books'' 75.25 ''Visa'' Brasilia,
      transaction ''2025-07-07'' ''Hotel'' ''Travel'' 500.00 ''MasterCard'' ''Curitiba'',
      transaction ''2025-08-19'' (''Loja Eletr'' @ [CHR 0xF4] @ ''nica'') ''Electronics'' 350.00 ''Amex''
        Sao_Paulo,
      transaction ''2025-09-30'' (''Restaurante '' @ Brasilia) ''Dining'' 90.00 ''Visa'' Brasilia,
      transaction ''2025-10-05'' ''Supermercado RJ'' ''Groceries'' 130.75 ''MasterCard''
        ''Rio de Janeiro'',
      transaction ''2025-10-15'' ''Festa'' ''Entertainment'' 200.00 ''Amex'' Sao_Paulo,
      transaction ''2025-11-01'' (''Servi'' @ [CHR 0xE7] @ ''os'') ''Utilities'' 180.00 ''Visa'' ''Curitiba'',
      transaction ''2025-11-20'' ''Transporte'' ''Transport'' 30.50 ''MasterCard'' ''Rio de Janeiro'']"

text \<open>
  One half of the routine, which the source writes out twice: connect, drop the table,
  create it, insert the rows, commit, close. There is no \<open>try\<close>: an exception leaves the
  routine with the connection open.
\<close>

definition recreate_and_fill ::
  "('db, 'c) driver \<Rightarrow> string \<Rightarrow> string \<Rightarrow> column_def list \<Rightarrow> string list \<Rightarrow> cell list list
     \<Rightarrow> 'db world \<Rightarrow> (exn + unit) \<times> 'db world" where
  "recreate_and_fill drv path table cols names params w =
     (case connect drv path (files w path) of
        Inl e \<Rightarrow> (Inl e, w)
      | Inr c \<Rightarrow>
          (let w1 = w\<lparr>opened := opened w + 1\<rparr> in
           case drop_table_if_exists drv table c of
             (Inl e, c1) \<Rightarrow> (Inl e, conn_abandon drv path c1 w1)
           | (Inr _, c1) \<Rightarrow>
               (case create_table drv table cols c1 of
                  (Inl e, c2) \<Rightarrow> (Inl e, conn_abandon drv path c2 w1)
                | (Inr _, c2) \<Rightarrow>
                    (case insert_many drv table names params c2 of
                       (Inl e, c3) \<Rightarrow> (Inl e, conn_abandon drv path c3 w1)
                     | (Inr _, c3) \<Rightarrow>
                         (case commit drv c3 of
                            (Inl e, c4) \<Rightarrow> (Inl e, conn_abandon drv path c4 w1)
                          | (Inr _, c4) \<Rightarrow> (Inr (), conn_close drv path c4 w1))))))"

definition create_example_databases ::
  "(string \<times> string) list \<Rightarrow> ('db, 'c) driver \<Rightarrow> 'db world \<Rightarrow> (exn + unit) \<times> 'db world" where
  "create_example_databases registry drv w =
     (case map_of registry ''flights'' of
        None \<Rightarrow> (Inl (KeyError ''flights''), w)
      | Some flights_path \<Rightarrow>
          (case recreate_and_fill drv flights_path ''flights'' flights_columns
                  flights_insert_columns flights_data w of
             (Inl e, w1) \<Rightarrow> (Inl e, w1)
           | (Inr _, w1) \<Rightarrow>
               (case map_of registry ''transactions'' of
                  None \<Rightarrow> (Inl (KeyError ''transactions''), w1)
                | Some transactions_path \<Rightarrow>
                    recreate_and_fill drv transactions_path ''transactions''
                      transactions_columns transactions_insert_columns transactions_data w1)))"


section \<open>A model of the SQLite driver\<close>

text \<open>
  A database is its catalogue, in order: tables, views and indexes by name. A table has
  its columns in declaration order, its rows in insertion order and the highest row id
  handed out; a view has its columns; an index names the table it is on. Names compare
  without regard to ASCII letter case, as in SQLite. The model covers the statements
  the program itself issues; SQL text passed verbatim is answered by a parameter
  \<open>interp\<close>.
\<close>

record sq_table =
  t_columns :: "column_def list"
  t_rows :: "cell list list"
  t_seq :: int

datatype sq_object = Table sq_table | View "column_def list" | Index string

type_synonym sq_db = "(string \<times> sq_object) list"

text \<open>
  A connection sees its own working copy; \<open>committed\<close> is what the file holds. Python's
  \<open>sqlite3\<close> opens a transaction before an \<open>INSERT\<close> and leaves it open until
  \<open>commit\<close>; \<open>DROP\<close> and \<open>CREATE\<close> outside a transaction take effect at once.
\<close>

record sq_conn =
  committed :: sq_db
  working :: sq_db
  in_txn :: bool

definition same_name :: "string \<Rightarrow> string \<Rightarrow> bool" where
  "same_name a b = (ascii_upper a = ascii_upper b)"

fun lookup_ci :: "string \<Rightarrow> (string \<times> 'a) list \<Rightarrow> 'a option" where
  "lookup_ci n [] = None"
| "lookup_ci n ((m, v) # rest) = (if same_name n m then Some v else lookup_ci n rest)"

fun is_table :: "sq_object \<Rightarrow> bool" where
  "is_table (Table _) = True"
| "is_table _ = False"

fun is_index :: "sq_object \<Rightarrow> bool" where
  "is_index (Index _) = True"
| "is_index _ = False"

text \<open>The table or view that answers to a name, with the name it is stored under.\<close>

fun find_relation :: "string \<Rightarrow> sq_db \<Rightarrow> (string \<times> sq_object) option" where
  "find_relation t [] = None"
| "find_relation t ((m, obj) # rest) =
     (if same_name t m \<and> \<not> is_index obj then Some (m, obj) else find_relation t rest)"

definition index_named :: "string \<Rightarrow> sq_db \<Rightarrow> bool" where
  "index_named t db = list_ex (\<lambda>(m, obj). same_name t m \<and> is_index obj) db"

definition sq_connect :: "string \<Rightarrow> sq_db \<Rightarrow> exn + sq_conn" where
  "sq_connect path db = Inr \<lparr>committed = db, working = db, in_txn = False\<rparr>"

definition sq_ddl :: "(sq_db \<Rightarrow> sq_db) \<Rightarrow> sq_conn \<Rightarrow> sq_conn" where
  "sq_ddl f c =
     (let db = f (working c)
      in c\<lparr>working := db, committed := (if in_txn c then committed c else db)\<rparr>)"

text \<open>
  \<open>DROP TABLE IF EXISTS t\<close>: nothing happens when no table or view answers to \<open>t\<close>; a
  view is refused; a table goes, and the indexes on it go with it.
\<close>

fun goes_with_table :: "string \<Rightarrow> string \<times> sq_object \<Rightarrow> bool" where
  "goes_with_table t (m, Table _) = same_name t m"
| "goes_with_table t (m, Index on_table) = same_name t on_table"
| "goes_with_table t (m, View _) = False"

definition drop_table :: "string \<Rightarrow> sq_db \<Rightarrow> sq_db" where
  "drop_table t db = filter (\<lambda>entry. \<not> goes_with_table t entry) db"

definition sq_drop_table_if_exists :: "string \<Rightarrow> sq_conn \<Rightarrow> (exn + unit) \<times> sq_conn" where
  "sq_drop_table_if_exists t c =
     (case find_relation t (working c) of
        None \<Rightarrow> (Inr (), c)
      | Some (m, obj) \<Rightarrow>
          (case obj of
             View _ \<Rightarrow> (Inl (SqliteError (''use DROP VIEW to delete view '' @ m)), c)
           | _ \<Rightarrow> (Inr (), sq_ddl (drop_table t) c)))"

text \<open>
  \<open>CREATE TABLE t (cols)\<close>: refused when a table, a view or an index answers to \<open>t\<close>.
  The message repeats the name as the statement writes it, \<open>written\<close>.
\<close>

definition sq_create_table_as ::
  "string \<Rightarrow> string \<Rightarrow> column_def list \<Rightarrow> sq_conn \<Rightarrow> (exn + unit) \<times> sq_conn" where
  "sq_create_table_as written t cols c =
     (case find_relation t (working c) of
        Some (m, obj) \<Rightarrow>
          (Inl (SqliteError ((case obj of View _ \<Rightarrow> ''view '' | _ \<Rightarrow> ''table '')
                               @ written @ '' already exists'')), c)
      | None \<Rightarrow>
          if index_named t (working c)
          then (Inl (SqliteError (''there is already an index named '' @ t)), c)
          else (Inr (), sq_ddl (\<lambda>db. db @ [(t, Table \<lparr>t_columns = cols, t_rows = [],
                                                        t_seq = 0\<rparr>)]) c))"

definition sq_create_table ::
  "string \<Rightarrow> column_def list \<Rightarrow> sq_conn \<Rightarrow> (exn + unit) \<times> sq_conn" where
  "sq_create_table t cols c = sq_create_table_as t t cols c"

text \<open>
  The row stored for one parameter tuple: a named column takes its bound value, an
  omitted \<open>AUTOINCREMENT\<close> key the next row id, any other omitted column \<open>NULL\<close>. (A key
  value bound explicitly is stored as given; the program never binds one.)
\<close>

definition new_row :: "column_def list \<Rightarrow> (string \<times> cell) list \<Rightarrow> int \<Rightarrow> cell list" where
  "new_row cols bound rowid =
     map (\<lambda>cd. case lookup_ci (cd_name cd) bound of
                  Some v \<Rightarrow> v
                | None \<Rightarrow> if cd_autoincrement cd then CInt rowid else CNull) cols"

fun insert_rows :: "string list \<Rightarrow> cell list list \<Rightarrow> sq_table \<Rightarrow> exn option \<times> sq_table" where
  "insert_rows names [] t = (None, t)"
| "insert_rows names (p # params) t =
     (if length p \<noteq> length names
      then (Some (SqliteError (''Incorrect number of bindings supplied. The current ''
                                @ ''statement uses '' @ decimal (length names)
                                @ '', and there are '' @ decimal (length p) @ '' supplied.'')), t)
      else insert_rows names params
             (t\<lparr>t_rows := t_rows t @ [new_row (t_columns t) (zip names p) (t_seq t + 1)],
                t_seq := t_seq t + 1\<rparr>))"

definition replace_table :: "string \<Rightarrow> sq_table \<Rightarrow> sq_db \<Rightarrow> sq_db" where
  "replace_table t tbl db =
     map (\<lambda>(m, obj). if same_name t m \<and> is_table obj then (m, Table tbl) else (m, obj)) db"

text \<open>
  \<open>executemany\<close> of an \<open>INSERT\<close> naming columns: the statement is refused when no table
  answers to \<open>t\<close>, when a view does, or when a named column is missing; otherwise the
  tuples are inserted one by one inside a transaction, up to the first tuple of the
  wrong length.
\<close>

definition sq_insert_many ::
  "string \<Rightarrow> string list \<Rightarrow> cell list list \<Rightarrow> sq_conn \<Rightarrow> (exn + unit) \<times> sq_conn" where
  "sq_insert_many t names params c =
     (case find_relation t (working c) of
        None \<Rightarrow> (Inl (SqliteError (''no such table: '' @ t)), c)
      | Some (m, obj) \<Rightarrow>
          (case obj of
             Table tbl \<Rightarrow>
               (case find (\<lambda>n. \<not> list_ex (\<lambda>cd. same_name n (cd_name cd)) (t_columns tbl)) names of
                  Some n \<Rightarrow>
                    (Inl (SqliteError (''table '' @ t @ '' has no column named '' @ n)), c)
                | None \<Rightarrow>
                    (case insert_rows names params tbl of
                       (err, tbl1) \<Rightarrow>
                         ((case err of None \<Rightarrow> Inr () | Some e \<Rightarrow> Inl e),
                          c\<lparr>working := replace_table t tbl1 (working c), in_txn := True\<rparr>)))
           | _ \<Rightarrow>
               (Inl (SqliteError (''cannot modify '' @ m @ '' because it is a view'')), c)))"

definition sq_commit :: "sq_conn \<Rightarrow> (exn + unit) \<times> sq_conn" where
  "sq_commit c = (Inr (), c\<lparr>committed := working c, in_txn := False\<rparr>)"

text \<open>
  The catalogue query: the names of the tables (not views, not indexes) that are
  \<open>NOT LIKE 'sqlite_%'\<close>. \<open>LIKE\<close> ignores ASCII case and \<open>_\<close> matches any one character.
\<close>

definition like_sqlite :: "string \<Rightarrow> bool" where
  "like_sqlite n = (7 \<le> length n \<and> ascii_upper (take 6 n) = ''SQLITE'')"

definition sq_select_user_tables :: "sq_conn \<Rightarrow> (exn + string list) \<times> sq_conn" where
  "sq_select_user_tables c =
     (Inr (map fst (filter (\<lambda>(n, obj). is_table obj \<and> \<not> like_sqlite n) (working c))), c)"

subsection \<open>Reading the text of \<open>PRAGMA table_info(...)\<close>\<close>

text \<open>
  The statement is \<open>PRAGMA table_info(\<close>, the argument, and \<open>)\<close>. The argument the
  program writes begins with an apostrophe, so what follows is read as SQLite reads
  it: a string literal (a doubled apostrophe inside stands for one), then \<open>)\<close>, then
  at most one \<open>;\<close>, with white space and comments allowed in between and after. A line
  comment runs to the end of the line, a block comment to \<open>*/\<close>, either to the end of
  the text if it is not closed.
\<close>

definition is_blank_char :: "char \<Rightarrow> bool" where
  "is_blank_char c =
     (c = CHR '' '' \<or> c = CHR 0x09 \<or> c = CHR 0x0A \<or> c = CHR 0x0C \<or> c = CHR 0x0D)"

datatype scan_mode = Code | Line_comment | Block_comment

fun skip_blanks :: "scan_mode \<Rightarrow> string \<Rightarrow> string" where
  "skip_blanks Code [] = []"
| "skip_blanks Code [c] = (if is_blank_char c then [] else [c])"
| "skip_blanks Code (c # d # rest) =
     (if is_blank_char c then skip_blanks Code (d # rest)
      else if c = CHR ''-'' \<and> d = CHR ''-'' then skip_blanks Line_comment rest
      else if c = CHR ''/'' \<and> d = CHR ''*'' then skip_blanks Block_comment rest
      else c # d # rest)"
| "skip_blanks Line_comment [] = []"
| "skip_blanks Line_comment (c # rest) =
     (if c = CHR 0x0A then skip_blanks Code rest else skip_blanks Line_comment rest)"
| "skip_blanks Block_comment [] = []"
| "skip_blanks Block_comment [c] = []"
| "skip_blanks Block_comment (c # d # rest) =
     (if c = CHR ''*'' \<and> d = CHR ''/'' then skip_blanks Code rest
      else skip_blanks Block_comment (d # rest))"

text \<open>
  The text after an opening apostrophe: the body of the literal and what follows its
  closing apostrophe, or nothing when the literal is not closed.
\<close>

fun literal_rest :: "string \<Rightarrow> (string \<times> string) option" where
  "literal_rest [] = None"
| "literal_rest [c] = (if c = CHR 0x27 then Some ([], []) else None)"
| "literal_rest (c # d # rest) =
     (if c = CHR 0x27
      then (if d = CHR 0x27 then map_option (apfst ((#) c)) (literal_rest rest)
            else Some ([], d # rest))
      else map_option (apfst ((#) c)) (literal_rest (d # rest)))"

text \<open>
  The exception for text that does not continue the statement. SQLite names the token
  it stops at. The model reads a token as SQLite does when it is a string literal or a
  word (letters, digits, \<open>_\<close>, \<open>$\<close> and characters above 127; a word that begins with
  a digit and is not all digits is not a token at all). Any other text is named by its
  first character; this differs from SQLite for operators of several characters, for
  numbers with a fraction or an exponent and for the other quoting styles.
\<close>

definition is_word_char :: "char \<Rightarrow> bool" where
  "is_word_char c =
     (digit7 c \<or> c \<in> set (''abcdefghijklmnopqrstuvwxyzABCDEFGHIJKLMNOPQRSTUVWXYZ'' @ ''0123456789_$''))"

definition syntax_error_at :: "string \<Rightarrow> exn" where
  "syntax_error_at s =
     (case s of
        [] \<Rightarrow> SqliteError ''incomplete input''
      | c # rest \<Rightarrow>
          if c = CHR 0x27 then
            (case literal_rest rest of
               None \<Rightarrow> SqliteError (''unrecognized token: \"'' @ s @ ''\"'')
             | Some (_, after) \<Rightarrow>
                 SqliteError (''near \"'' @ take (length s - length after) s @ ''\": syntax error''))
          else if is_word_char c then
            (let word = takeWhile is_word_char s in
             if c \<in> set ''0123456789'' \<and> \<not> list_all (\<lambda>d. d \<in> set ''0123456789'') word
             then SqliteError (''unrecognized token: \"'' @ word @ ''\"'')
             else SqliteError (''near \"'' @ word @ ''\": syntax error''))
          else SqliteError (''near \"'' @ [c] @ ''\": syntax error''))"

definition table_info_rows :: "column_def list \<Rightarrow> table_info_row list" where
  "table_info_rows cols =
     map (\<lambda>(i, cd). \<lparr>ti_cid = i, ti_name = cd_name cd, ti_type = Some (cd_type cd),
                     ti_notnull = False, ti_dflt_value = None,
                     ti_pk = (if cd_autoincrement cd then 1 else 0)\<rparr>)
         (enumerate 0 cols)"

text \<open>The rows for a name: the columns of the table or view, none when there is neither.\<close>

definition table_info_of :: "string \<Rightarrow> sq_db \<Rightarrow> table_info_row list" where
  "table_info_of t db =
     (case find_relation t db of
        None \<Rightarrow> []
      | Some (m, obj) \<Rightarrow>
          (case obj of
             Table tbl \<Rightarrow> table_info_rows (t_columns tbl)
           | View cols \<Rightarrow> table_info_rows cols
           | Index _ \<Rightarrow> []))"

text \<open>
  An argument that does not begin with an apostrophe is outside the model and is
  answered by \<open>OtherError\<close>; the program writes none. Text after the \<open>;\<close> is refused by
  Python's \<open>sqlite3\<close> (with an \<open>sqlite3.Error\<close> since Python 3.12).
\<close>

definition sq_pragma_table_info :: "string \<Rightarrow> sq_conn \<Rightarrow> (exn + table_info_row list) \<times> sq_conn" where
  "sq_pragma_table_info arg c =
     (case arg of
        [] \<Rightarrow> (Inl (OtherError ''argument outside the model''), c)
      | a # rest \<Rightarrow>
          if a \<noteq> CHR 0x27 then (Inl (OtherError ''argument outside the model''), c)
          else
            (case literal_rest (rest @ '')'') of
               None \<Rightarrow> (Inl (SqliteError (''unrecognized token: \"'' @ arg @ '')\"'')), c)
             | Some (t, after_literal) \<Rightarrow>
                 (case skip_blanks Code after_literal of
                    [] \<Rightarrow> (Inl (SqliteError ''incomplete input''), c)
                  | p # after_paren \<Rightarrow>
                      if p \<noteq> CHR '')'' then (Inl (syntax_error_at (p # after_paren)), c)
                      else
                        (case skip_blanks Code after_paren of
                           [] \<Rightarrow> (Inr (table_info_of t (working c)), c)
                         | s # after_semi \<Rightarrow>
                             if s \<noteq> CHR '';'' then (Inl (syntax_error_at (s # after_semi)), c)
                             else if skip_blanks Code after_semi = []
                             then (Inr (table_info_of t (working c)), c)
                             else (Inl (SqliteError
                                     ''You can only execute one statement at a time.''), c)))))"

definition sqlite ::
  "(string \<Rightarrow> sq_conn \<Rightarrow> (exn + result_set) \<times> sq_conn) \<Rightarrow> (sq_db, sq_conn) driver" where
  "sqlite interp =
     \<lparr>connect = sq_connect,
      durable = committed,
      execute = interp,
      select_user_tables = sq_select_user_tables,
      pragma_table_info = sq_pragma_table_info,
      drop_table_if_exists = sq_drop_table_if_exists,
      create_table = sq_create_table,
      insert_many = sq_insert_many,
      commit = sq_commit\<rparr>"

text \<open>
  An answer to three statements, for running \<open>query_database\<close> on concrete inputs: the
  count of the flights, the creation of a table whose name holds an apostrophe, and a
  misspelt keyword, which SQLite rejects. No other text is used with it.
\<close>

definition count_flights_sql :: string where
  "count_flights_sql = ''SELECT COUNT(*) AS n FROM flights''"

definition create_quoted_sql :: string where
  "create_quoted_sql = ''CREATE TABLE \"a'b\" (x INT)''"

definition three_statements :: "string \<Rightarrow> sq_conn \<Rightarrow> (exn + result_set) \<times> sq_conn" where
  "three_statements sql c =
     (if sql = count_flights_sql then
        (case find_relation ''flights'' (working c) of
           Some (m, Table tbl) \<Rightarrow>
             (Inr \<lparr>description = Some [''n''], fetched = [[CInt (int (length (t_rows tbl)))]]\<rparr>, c)
         | _ \<Rightarrow> (Inl (SqliteError ''no such table: flights''), c))
      else if sql = create_quoted_sql then
        (case sq_create_table_as ''\"a'b\"'' ''a'b'' [plain_column ''x'' ''INT''] c of
           (Inl e, c1) \<Rightarrow> (Inl e, c1)
         | (Inr _, c1) \<Rightarrow> (Inr \<lparr>description = None, fetched = []\<rparr>, c1))
      else (Inl (SqliteError ''near \"SELEC\": syntax error''), c))"

section \<open>Worlds used as concrete inputs\<close>

text \<open>A world with nothing in any file and no connection ever opened.\<close>

definition empty_world :: "sq_db world" where
  "empty_world = \<lparr>files = (\<lambda>_. []), opened = 0, closed = 0\<rparr>"

text \<open>
  The world after \<open>query_database\<close> has run \<open>CREATE TABLE "a'b" (x INT)\<close> on the
  \<open>flights\<close> database of the empty world.
\<close>

definition quoted_world :: "sq_db world" where
  "quoted_world =
     \<lparr>files = (\<lambda>_. [])(''/app/flights.db'' :=
                 [(''a'b'', Table \<lparr>t_columns = [plain_column ''x'' ''INT''], t_rows = [],
                                   t_seq = 0\<rparr>)]),
      opened = 1, closed = 1\<rparr>"

text \<open>The world after \<open>create_example_databases\<close> has run on the empty world.\<close>

definition seeded_world :: "sq_db world" where
  "seeded_world =
     snd (create_example_databases (DATABASES ''/app'') (sqlite three_statements) empty_world)"


text \<open>
  A world whose \<open>flights\<close> database holds two tables, as after
  \<open>CREATE TABLE a (x INT)\<close> and \<open>CREATE TABLE "a')--" (y TEXT, z TEXT)\<close>.
\<close>

definition shadow_world :: "sq_db world" where
  "shadow_world =
     \<lparr>files = (\<lambda>_. [])(''/app/flights.db'' :=
                 [(''a'', Table \<lparr>t_columns = [plain_column ''x'' ''INT''], t_rows = [],
                                 t_seq = 0\<rparr>),
                  (''a')--'', Table \<lparr>t_columns = [plain_column ''y'' ''TEXT'',
                                                    plain_column ''z'' ''TEXT''],
                                     t_rows = [], t_seq = 0\<rparr>)]),
      opened = 0, closed = 0\<rparr>"



section \<open>Observations used in the statements\<close>

text \<open>
  Whether a call of \<open>get_connection\<close> for \<open>db_name\<close> opens a connection: the name is registered
  and the driver connects.
\<close>

definition connects :: "(string \<times> string) list \<Rightarrow> ('db, 'c) driver \<Rightarrow> string \<Rightarrow> 'db world \<Rightarrow> bool" where
  "connects registry drv db_name w =
     (case map_of registry db_name of
        None \<Rightarrow> False
      | Some path \<Rightarrow> (case connect drv path (files w path) of Inl _ \<Rightarrow> False | Inr _ \<Rightarrow> True))"

text \<open>
  A result set whose rows all have one cell per described column, and which has no
  rows when it has no description.
\<close>

definition rectangular :: "result_set \<Rightarrow> bool" where
  "rectangular cur =
     (case description cur of
        None \<Rightarrow> fetched cur = []
      | Some d \<Rightarrow> list_all (\<lambda>row. length row = length d) (fetched cur))"

text \<open>
  The driver's guarantee about the statements \<open>get_schema\<close> issues: a fresh connection
  leaves the file as it found it, and neither the catalogue query nor
  \<open>PRAGMA table_info\<close> changes what the connection leaves in the file.
\<close>

definition metadata_reads_only :: "('db, 'c) driver \<Rightarrow> bool" where
  "metadata_reads_only drv =
     ((\<forall>path db c. connect drv path db = Inr c \<longrightarrow> durable drv c = db)
      \<and> (\<forall>c. durable drv (snd (select_user_tables drv c)) = durable drv c)
      \<and> (\<forall>arg c. durable drv (snd (pragma_table_info drv arg c)) = durable drv c))"



text \<open>Whether a view or an index of the database answers to the name \<open>t\<close>.\<close>

definition name_blocked :: "string \<Rightarrow> sq_db \<Rightarrow> bool" where
  "name_blocked t db = list_ex (\<lambda>(m, obj). same_name t m \<and> \<not> is_table obj) db"

text \<open>
  A database of the model after \<open>DROP TABLE IF EXISTS t\<close> has succeeded, and after the
  table \<open>t\<close> was then created with \<open>cols\<close> and filled with \<open>rows\<close>.
\<close>

definition after_drop :: "string \<Rightarrow> sq_db \<Rightarrow> sq_db" where
  "after_drop t db = (case find_relation t db of None \<Rightarrow> db | Some _ \<Rightarrow> drop_table t db)"

definition recreated :: "string \<Rightarrow> column_def list \<Rightarrow> cell list list \<Rightarrow> sq_db \<Rightarrow> sq_db" where
  "recreated t cols rows db =
     after_drop t db
       @ [(t, Table \<lparr>t_columns = cols, t_rows = rows, t_seq = int (length rows)\<rparr>)]"


section \<open>Facts about the classification\<close>

lemma upper_keywords:
  "upper ''INT'' = ''INT''" "upper ''REAL'' = ''REAL''" "upper ''NUM'' = ''NUM''"
  "upper ''CHAR'' = ''CHAR''" "upper ''TEXT'' = ''TEXT''" "upper ''CLOB'' = ''CLOB''"
  "upper ''DATE'' = ''DATE''" "upper ''TIME'' = ''TIME''"
  "upper ''BLOB'' = ''BLOB''" "upper ''BOOL'' = ''BOOL''"
  by (simp_all add: upper_def upper_char_def latin1_small_def latin1_capital_def)

lemma col_type_of_upper:
  "col_type_of declared = upper (case declared of None \<Rightarrow> '''' | Some t \<Rightarrow> t)"
  by (simp add: col_type_of_def upper_def split: option.splits)

text \<open>
  Claim C5. For every declared type (absent, empty or any string), the colour class the
  program computes is the one of the category the specification prescribes: Numeric for
  INT/REAL/NUM, then Text for CHAR/TEXT/CLOB, then Temporal for DATE/TIME, then
  BinaryOrBoolean for BLOB/BOOL, first match wins, otherwise Unknown, matching substrings
  without regard to letter case. In particular INTEGER is Numeric, TEXT is Text, DATE is
  Temporal, BLOB is BinaryOrBoolean, and the empty, the absent and FANCYTYPE are Unknown.
\<close>

theorem color_class_refines_spec:
  "color_class_of (col_type_of declared) = category_color (classify_spec declared)
   \<and> color_class_of (col_type_of (Some ''INTEGER'')) = category_color Numeric
   \<and> color_class_of (col_type_of (Some ''TEXT'')) = category_color Text
   \<and> color_class_of (col_type_of (Some ''DATE'')) = category_color Temporal
   \<and> color_class_of (col_type_of (Some ''BLOB'')) = category_color BinaryOrBoolean
   \<and> color_class_of (col_type_of (Some '''')) = category_color Unknown
   \<and> color_class_of (col_type_of None) = category_color Unknown
   \<and> color_class_of (col_type_of (Some ''FANCYTYPE'')) = category_color Unknown"
proof -
  have gen: "color_class_of (col_type_of declared) = category_color (classify_spec declared)"
    by (simp add: color_class_of_def classify_spec_def any_keyword_def contains_ci_def
        col_type_of_upper upper_keywords Let_def)
  have ex: "color_class_of (col_type_of (Some ''INTEGER'')) = category_color Numeric"
    "color_class_of (col_type_of (Some ''TEXT'')) = category_color Text"
    "color_class_of (col_type_of (Some ''DATE'')) = category_color Temporal"
    "color_class_of (col_type_of (Some ''BLOB'')) = category_color BinaryOrBoolean"
    "color_class_of (col_type_of (Some '''')) = category_color Unknown"
    "color_class_of (col_type_of None) = category_color Unknown"
    "color_class_of (col_type_of (Some ''FANCYTYPE'')) = category_color Unknown"
    by (simp_all add: color_class_of_def any_keyword_def col_type_of_def upper_def
        upper_char_def latin1_small_def latin1_capital_def sublist_code)
  from gen ex show ?thesis by simp
qed


section \<open>Facts about \<open>query_database\<close>\<close>

lemma get_connection_unknown:
  "map_of registry db_name = None \<Longrightarrow>
   get_connection registry drv db_name w =
     (Inl (ValueError (''Database '' @ apostrophe @ db_name @ apostrophe @ '' not found.'')), w)"
  by (simp add: get_connection_def)

text \<open>
  Claim C1. The claim is that \<open>query_database\<close>, called with a database name that is not
  in the registry, returns a result with \<open>success = False\<close> and a non-empty error, and
  never raises. The program does otherwise: \<open>get_connection\<close> raises \<open>ValueError\<close>,
  which \<open>except sqlite3.Error\<close> does not catch. With the program's own registry, the
  name \<open>archive\<close> and any statement, driver and world, the call raises
  \<open>ValueError("Database 'archive' not found.")\<close> and returns nothing.
\<close>

theorem query_database_unknown_database_raises:
  "query_database (DATABASES base_dir) drv ''archive'' ''SELECT 1'' w =
     (Inl (ValueError ''Database 'archive' not found.''), w)"
  by (simp add: query_database_def get_connection_def DATABASES_def handle_exn_def apostrophe_def)


text \<open>
  Claim C4. Every result that \<open>query_database\<close> returns, for any registry, driver,
  database name, statement and world, has \<open>success\<close> true exactly when \<open>error\<close> is
  absent, and when \<open>success\<close> is false its columns and rows are empty and its error is
  present.
\<close>

theorem query_result_invariant:
  assumes "fst (query_database registry drv db_name query w) = Inr r"
  shows "(success r \<longleftrightarrow> error r = None)
         \<and> (\<not> success r \<longrightarrow> columns r = [] \<and> data r = [] \<and> error r \<noteq> None)"
  using assms
  by (auto simp: query_database_def get_connection_def handle_exn_def error_result_def Let_def
      split: option.splits sum.splits prod.splits exn.splits)

text \<open>
  Claim C6. A call of \<open>query_database\<close> closes the connection it opens, whatever the
  statement does (success, an engine error, or any other exception): when the call
  opens a connection, one more connection has been opened and one more closed when it
  is over; when it opens none, both counts are unchanged.
\<close>

theorem query_database_closes_connection:
  "opened (snd (query_database registry drv db_name query w)) =
     opened w + (if connects registry drv db_name w then 1 else 0)
   \<and> closed (snd (query_database registry drv db_name query w)) =
     closed w + (if connects registry drv db_name w then 1 else 0)"
  by (auto simp: query_database_def get_connection_def connects_def conn_close_def Let_def
      split: option.splits sum.splits prod.splits)

lemma query_database_success:
  assumes "fst (query_database registry drv db_name query w) = Inr r" and "success r"
  shows "\<exists>path c cur c1. map_of registry db_name = Some path
           \<and> connect drv path (files w path) = Inr c
           \<and> execute drv query c = (Inr cur, c1)
           \<and> r = \<lparr>success = True,
                   columns = (case description cur of None \<Rightarrow> [] | Some d \<Rightarrow> d),
                   data = fetched cur, error = None\<rparr>"
  using assms
  by (auto simp: query_database_def get_connection_def handle_exn_def error_result_def Let_def
      split: option.splits sum.splits prod.splits exn.splits)

text \<open>
  Claim C10. Provided the driver hands out rectangular result sets for the statement
  (each fetched row has one cell per described column, and there is no row without a
  description), every successful result of \<open>query_database\<close> has rows of exactly as
  many cells as it has columns; its columns and rows are those of the driver's result
  set, and both are empty when the statement produced no result set.
\<close>

theorem query_database_rows_match_columns:
  assumes wf: "\<And>c cur c1. execute drv query c = (Inr cur, c1) \<Longrightarrow> rectangular cur"
    and ret: "fst (query_database registry drv db_name query w) = Inr r"
    and ok: "success r"
  shows "list_all (\<lambda>row. length row = length (columns r)) (data r)
         \<and> (\<exists>c cur c1. execute drv query c = (Inr cur, c1)
               \<and> columns r = (case description cur of None \<Rightarrow> [] | Some d \<Rightarrow> d)
               \<and> data r = fetched cur
               \<and> (description cur = None \<longrightarrow> columns r = [] \<and> data r = []))"
proof -
  from query_database_success [OF ret ok] obtain path c cur c1 where
    ex: "execute drv query c = (Inr cur, c1)" and
    r: "r = \<lparr>success = True,
              columns = (case description cur of None \<Rightarrow> [] | Some d \<Rightarrow> d),
              data = fetched cur, error = None\<rparr>"
    by blast
  from wf [OF ex] have rect: "rectangular cur" .
  have shape: "list_all (\<lambda>row. length row = length (columns r)) (data r)"
    using rect r by (cases "description cur") (simp_all add: rectangular_def)
  have none: "description cur = None \<longrightarrow> columns r = [] \<and> data r = []"
    using rect r by (auto simp: rectangular_def)
  have "\<exists>c cur c1. execute drv query c = (Inr cur, c1)
          \<and> columns r = (case description cur of None \<Rightarrow> [] | Some d \<Rightarrow> d)
          \<and> data r = fetched cur
          \<and> (description cur = None \<longrightarrow> columns r = [] \<and> data r = [])"
    using ex none by (intro exI [of _ c] exI [of _ cur] exI [of _ c1]) (simp add: r)
  with shape show ?thesis by simp
qed

section \<open>Facts about \<open>get_schema\<close>\<close>

lemma tables_loop_durable:
  "metadata_reads_only drv \<Longrightarrow>
   durable drv (snd (tables_loop drv tables c tables_dict)) = durable drv c"
proof (induction tables arbitrary: c tables_dict)
  case Nil
  show ?case by simp
next
  case (Cons table tables)
  obtain r c1 where p: "pragma_table_info drv (apostrophe @ table @ apostrophe) c = (r, c1)"
    by (cases "pragma_table_info drv (apostrophe @ table @ apostrophe) c")
  from Cons.prems have d1: "durable drv c1 = durable drv c"
    using p unfolding metadata_reads_only_def by (metis snd_conv)
  show ?case
  proof (cases r)
    case (Inl e)
    with p d1 show ?thesis by simp
  next
    case (Inr rows)
    with p d1 Cons.IH [OF Cons.prems] show ?thesis by simp
  qed
qed

lemma databases_loop_files:
  "metadata_reads_only drv \<Longrightarrow>
   files (snd (databases_loop drv registry w schema)) = files w"
proof (induction registry arbitrary: w schema)
  case Nil
  show ?case by simp
next
  case (Cons entry registry)
  obtain db_name db_path where entry: "entry = (db_name, db_path)" by (cases entry)
  show ?case
  proof (cases "connect drv db_path (files w db_path)")
    case (Inl e)
    with entry show ?thesis by simp
  next
    case (Inr c)
    from Cons.prems Inr have dc: "durable drv c = files w db_path"
      unfolding metadata_reads_only_def by blast
    obtain r c1 where s: "select_user_tables drv c = (r, c1)"
      by (cases "select_user_tables drv c")
    from Cons.prems have d1: "durable drv c1 = files w db_path"
      using s dc unfolding metadata_reads_only_def by (metis snd_conv)
    show ?thesis
    proof (cases r)
      case (Inl e)
      with entry Inr s d1 show ?thesis by (simp add: conn_abandon_def)
    next
      case tabs: (Inr tables)
      obtain r2 c2 where t: "tables_loop drv tables c1 [] = (r2, c2)"
        by (cases "tables_loop drv tables c1 []")
      from tables_loop_durable [OF Cons.prems, of tables c1 "[]"] t d1
      have d2: "durable drv c2 = files w db_path" by simp
      show ?thesis
      proof (cases r2)
        case (Inl e)
        with entry Inr s tabs t d2 show ?thesis by (simp add: conn_abandon_def)
      next
        case (Inr tables_dict)
        have "files (conn_close drv db_path c2 (w\<lparr>opened := opened w + 1\<rparr>)) = files w"
          using d2 by (simp add: conn_close_def)
        with entry \<open>connect drv db_path (files w db_path) = Inr c\<close> s tabs t Inr
          Cons.IH [OF Cons.prems]
        show ?thesis by simp
      qed
    qed
  qed
qed

text \<open>
  Claim C9. \<open>get_schema\<close> issues nothing but the catalogue query and
  \<open>PRAGMA table_info\<close>. For every registry and world, and every driver in which these
  reads and a bare connection change nothing in the file, the content of every
  database file after the call, whether it returned or raised, is what it was before.
\<close>

theorem get_schema_read_only:
  "metadata_reads_only drv \<Longrightarrow> files (snd (get_schema registry drv w)) = files w"
  by (simp add: get_schema_def databases_loop_files)

lemma sq_pragma_table_info_conn [simp]: "snd (sq_pragma_table_info arg c) = c"
  by (simp add: sq_pragma_table_info_def split: list.splits option.splits prod.splits)

lemma sqlite_metadata_reads_only: "metadata_reads_only (sqlite interp)"
  by (simp add: metadata_reads_only_def sqlite_def sq_connect_def sq_select_user_tables_def)

lemma databases_loop_returns_closed:
  "databases_loop drv registry w schema = (Inr schema', w') \<Longrightarrow>
   opened w' + closed w = closed w' + opened w"
proof (induction registry arbitrary: w schema)
  case Nil
  then show ?case by simp
next
  case (Cons entry registry)
  obtain db_name db_path where entry: "entry = (db_name, db_path)" by (cases entry)
  from Cons.prems entry obtain c c1 tables c2 tables_dict where
    rest: "databases_loop drv registry (conn_close drv db_path c2 (w\<lparr>opened := opened w + 1\<rparr>))
             (AList.update db_name tables_dict (AList.update db_name [] schema)) = (Inr schema', w')"
    by (auto simp: Let_def split: sum.splits prod.splits)
  from Cons.IH [OF rest] show ?case by (simp add: conn_close_def)
qed


section \<open>Facts about the SQLite model and \<open>create_example_databases\<close>\<close>

lemma same_name_refl [simp]: "same_name a a"
  by (simp add: same_name_def)

lemma find_relation_None_iff:
  "find_relation t db = None \<longleftrightarrow> (\<forall>(m, obj) \<in> set db. same_name t m \<longrightarrow> is_index obj)"
  by (induction db) (auto split: if_splits)

lemma find_relation_SomeD:
  "find_relation t db = Some (m, obj) \<Longrightarrow> (m, obj) \<in> set db \<and> same_name t m \<and> \<not> is_index obj"
  by (induction db) (auto split: if_splits)

lemma find_relation_append:
  "find_relation t (xs @ ys) =
     (case find_relation t xs of None \<Rightarrow> find_relation t ys | Some e \<Rightarrow> Some e)"
  by (induction xs) auto

lemma name_blocked_iff:
  "name_blocked t db \<longleftrightarrow> (\<exists>(m, obj) \<in> set db. same_name t m \<and> \<not> is_table obj)"
  by (auto simp: name_blocked_def list_ex_iff)

lemma index_named_iff:
  "index_named t db \<longleftrightarrow> (\<exists>(m, obj) \<in> set db. same_name t m \<and> is_index obj)"
  by (auto simp: index_named_def list_ex_iff)

lemma is_index_not_table: "is_index obj \<Longrightarrow> \<not> is_table obj"
  by (cases obj) simp_all

lemma set_after_drop: "set (after_drop t db) \<subseteq> set db"
  by (auto simp: after_drop_def drop_table_def split: option.splits)

lemma after_drop_no_relation:
  assumes "\<not> name_blocked t db"
  shows "find_relation t (after_drop t db) = None"
proof (cases "find_relation t db")
  case None
  then show ?thesis by (simp add: after_drop_def)
next
  case (Some e)
  have "same_name t m \<longrightarrow> is_index obj" if "(m, obj) \<in> set (drop_table t db)" for m obj
  proof (cases obj)
    case (Table tbl)
    with that show ?thesis by (auto simp: drop_table_def)
  next
    case (View cols)
    with that assms show ?thesis by (auto simp: drop_table_def name_blocked_iff)
  next
    case (Index on_table)
    then show ?thesis by simp
  qed
  then have "find_relation t (drop_table t db) = None"
    by (auto simp: find_relation_None_iff)
  with Some show ?thesis by (simp add: after_drop_def)
qed

lemma after_drop_no_index:
  assumes "\<not> name_blocked t db"
  shows "\<not> index_named t (after_drop t db)"
proof
  assume "index_named t (after_drop t db)"
  then obtain m obj where "(m, obj) \<in> set (after_drop t db)" "same_name t m" "is_index obj"
    by (auto simp: index_named_iff)
  with set_after_drop [of t db] have "(m, obj) \<in> set db" "same_name t m" "\<not> is_table obj"
    by (auto dest: is_index_not_table)
  with assms show False by (auto simp: name_blocked_iff)
qed


lemma replace_table_last:
  assumes "\<And>m obj. (m, obj) \<in> set db \<Longrightarrow> same_name t m \<Longrightarrow> \<not> is_table obj"
  shows "replace_table t tbl (db @ [(t, Table old)]) = db @ [(t, Table tbl)]"
proof -
  have "map (\<lambda>(m, obj). if same_name t m \<and> is_table obj then (m, Table tbl) else (m, obj)) db = db"
    by (rule map_idI) (use assms in auto)
  then show ?thesis by (simp add: replace_table_def)
qed

lemma sq_drop_free:
  assumes "\<not> name_blocked t db"
  shows "sq_drop_table_if_exists t \<lparr>committed = db, working = db, in_txn = False\<rparr> =
           (Inr (), \<lparr>committed = after_drop t db, working = after_drop t db, in_txn = False\<rparr>)"
proof (cases "find_relation t db")
  case None
  then show ?thesis by (simp add: sq_drop_table_if_exists_def after_drop_def)
next
  case (Some e)
  obtain m obj where e: "e = (m, obj)" by (cases e)
  from find_relation_SomeD [OF Some [unfolded e]] assms have "is_table obj"
    by (auto simp: name_blocked_iff)
  then obtain tbl where "obj = Table tbl" by (cases obj) simp_all
  with Some e show ?thesis
    by (simp add: sq_drop_table_if_exists_def after_drop_def sq_ddl_def Let_def)
qed

lemma sq_create_free:
  assumes "find_relation t db = None" and "\<not> index_named t db"
  shows "sq_create_table t cols \<lparr>committed = db, working = db, in_txn = False\<rparr> =
           (Inr (), \<lparr>committed = db @ [(t, Table \<lparr>t_columns = cols, t_rows = [], t_seq = 0\<rparr>)],
                     working = db @ [(t, Table \<lparr>t_columns = cols, t_rows = [], t_seq = 0\<rparr>)],
                     in_txn = False\<rparr>)"
  using assms by (simp add: sq_create_table_def sq_create_table_as_def sq_ddl_def Let_def)

lemma sq_insert_last:
  assumes none: "find_relation t db = None"
    and names: "list_all (\<lambda>n. list_ex (\<lambda>cd. same_name n (cd_name cd)) (t_columns tbl)) names"
    and ins: "insert_rows names params tbl = (None, tbl1)"
  shows "sq_insert_many t names params
           \<lparr>committed = old, working = db @ [(t, Table tbl)], in_txn = False\<rparr> =
         (Inr (), \<lparr>committed = old, working = db @ [(t, Table tbl1)], in_txn = True\<rparr>)"
proof -
  have found: "find_relation t (db @ [(t, Table tbl)]) = Some (t, Table tbl)"
    using none by (simp add: find_relation_append)
  have cols: "find (\<lambda>n. \<not> list_ex (\<lambda>cd. same_name n (cd_name cd)) (t_columns tbl)) names = None"
    using names by (simp add: find_None_iff list_all_iff)
  have "\<not> is_table obj" if "(m, obj) \<in> set db" "same_name t m" for m obj
    using none that by (auto simp: find_relation_None_iff dest: is_index_not_table)
  from replace_table_last [of db t tbl1 tbl, OF this]
  have "replace_table t tbl1 (db @ [(t, Table tbl)]) = db @ [(t, Table tbl1)]" .
  with found cols ins show ?thesis by (simp add: sq_insert_many_def)
qed

lemma insert_rows_keyed:
  assumes "\<forall>p \<in> set params. length p = length names
             \<and> (\<forall>i. new_row (t_columns t) (zip names p) i = CInt i # p)"
  shows "\<exists>rows. insert_rows names params t =
           (None, t\<lparr>t_rows := t_rows t @ rows, t_seq := t_seq t + int (length params)\<rparr>)
         \<and> map tl rows = params
         \<and> map hd rows = map CInt [t_seq t + 1 .. t_seq t + int (length params)]"
  using assms
proof (induction params arbitrary: t)
  case Nil
  show ?case by simp
next
  case (Cons p params)
  let ?t1 = "t\<lparr>t_rows := t_rows t @ [CInt (t_seq t + 1) # p], t_seq := t_seq t + 1\<rparr>"
  from Cons.prems have len: "length p = length names"
    and row: "new_row (t_columns t) (zip names p) (t_seq t + 1) = CInt (t_seq t + 1) # p"
    by simp_all
  from Cons.prems have "\<forall>q \<in> set params. length q = length names
      \<and> (\<forall>i. new_row (t_columns ?t1) (zip names q) i = CInt i # q)"
    by simp
  from Cons.IH [OF this] obtain rows where
    ins: "insert_rows names params ?t1 =
            (None, ?t1\<lparr>t_rows := t_rows ?t1 @ rows, t_seq := t_seq ?t1 + int (length params)\<rparr>)"
    and tls: "map tl rows = params"
    and hds: "map hd rows = map CInt [t_seq ?t1 + 1 .. t_seq ?t1 + int (length params)]"
    by blast
  have upto: "[t_seq t + 1 .. t_seq t + int (length (p # params))] =
      (t_seq t + 1) # [t_seq t + 1 + 1 .. t_seq t + 1 + int (length params)]"
    by (subst upto_rec1) (simp_all add: add.commute add.left_commute)
  have a: "insert_rows names (p # params) t =
      (None, t\<lparr>t_rows := t_rows t @ ((CInt (t_seq t + 1) # p) # rows),
                t_seq := t_seq t + int (length (p # params))\<rparr>)"
    using len row ins by (simp add: add.commute add.left_commute)
  have b: "map tl ((CInt (t_seq t + 1) # p) # rows) = p # params"
    using tls by simp
  have c: "map hd ((CInt (t_seq t + 1) # p) # rows) =
      map CInt [t_seq t + 1 .. t_seq t + int (length (p # params))]"
    using hds upto by simp
  show ?case
  proof (intro exI conjI)
    show "insert_rows names (p # params) t =
      (None, t\<lparr>t_rows := t_rows t @ ((CInt (t_seq t + 1) # p) # rows),
                t_seq := t_seq t + int (length (p # params))\<rparr>)" by (rule a)
    show "map tl ((CInt (t_seq t + 1) # p) # rows) = p # params" by (rule b)
    show "map hd ((CInt (t_seq t + 1) # p) # rows) =
      map CInt [t_seq t + 1 .. t_seq t + int (length (p # params))]" by (rule c)
  qed
qed

lemma recreate_and_fill_recreated:
  assumes names: "list_all (\<lambda>n. list_ex (\<lambda>cd. same_name n (cd_name cd)) cols) names"
    and params: "\<forall>p \<in> set params. length p = length names
                   \<and> (\<forall>i. new_row cols (zip names p) i = CInt i # p)"
    and free: "\<not> name_blocked table (files w path)"
  shows "\<exists>rows. recreate_and_fill (sqlite interp) path table cols names params w =
           (Inr (), w\<lparr>files := (files w)(path := recreated table cols rows (files w path)),
                      opened := opened w + 1, closed := closed w + 1\<rparr>)
         \<and> map tl rows = params
         \<and> map hd rows = map CInt [1 .. int (length params)]"
proof -
  let ?t0 = "\<lparr>t_columns = cols, t_rows = [], t_seq = 0\<rparr>"
  let ?db = "after_drop table (files w path)"
  from params have "\<forall>p \<in> set params. length p = length names
      \<and> (\<forall>i. new_row (t_columns ?t0) (zip names p) i = CInt i # p)"
    by simp
  from insert_rows_keyed [OF this] obtain rows where
    ins: "insert_rows names params ?t0 =
            (None, ?t0\<lparr>t_rows := t_rows ?t0 @ rows, t_seq := t_seq ?t0 + int (length params)\<rparr>)"
    and tls: "map tl rows = params"
    and hds: "map hd rows = map CInt [t_seq ?t0 + 1 .. t_seq ?t0 + int (length params)]"
    by blast
  from tls have len: "length params = length rows" by (metis length_map)
  let ?t1 = "\<lparr>t_columns = cols, t_rows = rows, t_seq = int (length rows)\<rparr>"
  from ins len have ins': "insert_rows names params ?t0 = (None, ?t1)" by simp
  have names': "list_all (\<lambda>n. list_ex (\<lambda>cd. same_name n (cd_name cd)) (t_columns ?t0)) names"
    using names by simp
  note drop = sq_drop_free [OF free]
  note create = sq_create_free [OF after_drop_no_relation [OF free] after_drop_no_index [OF free],
      of cols]
  note insert = sq_insert_last [OF after_drop_no_relation [OF free] names' ins',
      of "?db @ [(table, Table ?t0)]"]
  have run: "recreate_and_fill (sqlite interp) path table cols names params w =
           (Inr (), w\<lparr>files := (files w)(path := recreated table cols rows (files w path)),
                      opened := opened w + 1, closed := closed w + 1\<rparr>)"
    by (simp add: recreate_and_fill_def sqlite_def sq_connect_def drop create insert
        sq_commit_def conn_close_def recreated_def Let_def)
  from hds have hds': "map hd rows = map CInt [1 .. int (length params)]" by simp
  show ?thesis
  proof (intro exI conjI)
    show "recreate_and_fill (sqlite interp) path table cols names params w =
           (Inr (), w\<lparr>files := (files w)(path := recreated table cols rows (files w path)),
                      opened := opened w + 1, closed := closed w + 1\<rparr>)" by (rule run)
    show "map tl rows = params" by (rule tls)
    show "map hd rows = map CInt [1 .. int (length params)]" by (rule hds')
  qed
qed




lemma new_row_flight:
  "new_row flights_columns (zip flights_insert_columns (flight a b c d e f g)) i =
     CInt i # flight a b c d e f g"
  by (simp add: new_row_def flights_columns_def flights_insert_columns_def flight_def
      key_column_def plain_column_def same_name_def ascii_upper_def ascii_upper_char_def)

lemma new_row_transaction:
  "new_row transactions_columns (zip transactions_insert_columns (transaction a b c d e f)) i =
     CInt i # transaction a b c d e f"
  by (simp add: new_row_def transactions_columns_def transactions_insert_columns_def
      transaction_def key_column_def plain_column_def same_name_def ascii_upper_def ascii_upper_char_def)

lemma length_flight: "length (flight a b c d e f g) = length flights_insert_columns"
  by (simp add: flight_def flights_insert_columns_def)

lemma length_transaction:
  "length (transaction a b c d e f) = length transactions_insert_columns"
  by (simp add: transaction_def transactions_insert_columns_def)

lemma flights_params:
  "\<forall>p \<in> set flights_data. length p = length flights_insert_columns
     \<and> (\<forall>i. new_row flights_columns (zip flights_insert_columns p) i = CInt i # p)"
  by (simp add: flights_data_def new_row_flight length_flight)

lemma transactions_params:
  "\<forall>p \<in> set transactions_data. length p = length transactions_insert_columns
     \<and> (\<forall>i. new_row transactions_columns (zip transactions_insert_columns p) i = CInt i # p)"
  by (simp add: transactions_data_def new_row_transaction length_transaction)

lemma flights_names:
  "list_all (\<lambda>n. list_ex (\<lambda>cd. same_name n (cd_name cd)) flights_columns) flights_insert_columns"
  by (simp add: flights_columns_def flights_insert_columns_def key_column_def plain_column_def)

lemma transactions_names:
  "list_all (\<lambda>n. list_ex (\<lambda>cd. same_name n (cd_name cd)) transactions_columns)
     transactions_insert_columns"
  by (simp add: transactions_columns_def transactions_insert_columns_def key_column_def
      plain_column_def)

lemma length_flights_data: "length flights_data = 10"
  by (simp add: flights_data_def)

lemma length_transactions_data: "length transactions_data = 15"
  by (simp add: transactions_data_def)

lemma keyed_rows_distinct:
  assumes "map hd rows = map CInt [1 .. n]"
  shows "distinct rows"
proof -
  have "distinct (map CInt [1 .. n])" by (simp add: distinct_map inj_on_def)
  with assms have "distinct (map hd rows)" by simp
  then show ?thesis by (simp add: distinct_map)
qed

lemma create_example_databases_sqlite:
  assumes ffree: "\<not> name_blocked ''flights'' (files w (base_dir @ ''/flights.db''))"
    and tfree: "\<not> name_blocked ''transactions'' (files w (base_dir @ ''/transactions.db''))"
  shows "\<exists>flights_rows transactions_rows.
     create_example_databases (DATABASES base_dir) (sqlite interp) w =
       (Inr (), w\<lparr>files := (files w)
                   (base_dir @ ''/flights.db'' :=
                      recreated ''flights'' flights_columns flights_rows
                        (files w (base_dir @ ''/flights.db'')),
                    base_dir @ ''/transactions.db'' :=
                      recreated ''transactions'' transactions_columns transactions_rows
                        (files w (base_dir @ ''/transactions.db''))),
                  opened := opened w + 2, closed := closed w + 2\<rparr>)
     \<and> map tl flights_rows = flights_data \<and> length flights_rows = 10 \<and> distinct flights_rows
     \<and> map tl transactions_rows = transactions_data \<and> length transactions_rows = 15
     \<and> distinct transactions_rows"
proof -
  let ?fp = "base_dir @ ''/flights.db''" and ?tp = "base_dir @ ''/transactions.db''"
  from recreate_and_fill_recreated [OF flights_names flights_params ffree, of interp]
  obtain frows where
    f: "recreate_and_fill (sqlite interp) ?fp ''flights'' flights_columns flights_insert_columns
          flights_data w =
        (Inr (), w\<lparr>files := (files w)(?fp := recreated ''flights'' flights_columns frows (files w ?fp)),
                   opened := opened w + 1, closed := closed w + 1\<rparr>)"
    and ftl: "map tl frows = flights_data"
    and fhd: "map hd frows = map CInt [1 .. int (length flights_data)]"
    by blast
  let ?w1 = "w\<lparr>files := (files w)(?fp := recreated ''flights'' flights_columns frows (files w ?fp)),
                opened := opened w + 1, closed := closed w + 1\<rparr>"
  have tfree1: "\<not> name_blocked ''transactions'' (files ?w1 ?tp)"
    using tfree by simp
  from recreate_and_fill_recreated [OF transactions_names transactions_params tfree1, of interp]
  obtain trows where
    t: "recreate_and_fill (sqlite interp) ?tp ''transactions'' transactions_columns
          transactions_insert_columns transactions_data ?w1 =
        (Inr (), ?w1\<lparr>files := (files ?w1)(?tp :=
                         recreated ''transactions'' transactions_columns trows (files ?w1 ?tp)),
                     opened := opened ?w1 + 1, closed := closed ?w1 + 1\<rparr>)"
    and ttl: "map tl trows = transactions_data"
    and thd: "map hd trows = map CInt [1 .. int (length transactions_data)]"
    by blast
  have run: "create_example_databases (DATABASES base_dir) (sqlite interp) w =
       (Inr (), w\<lparr>files := (files w)
                   (?fp := recreated ''flights'' flights_columns frows (files w ?fp),
                    ?tp := recreated ''transactions'' transactions_columns trows (files w ?tp)),
                  opened := opened w + 2, closed := closed w + 2\<rparr>)"
    using f t by (simp add: create_example_databases_def DATABASES_def)
  from ftl have flen: "length frows = 10"
    using length_flights_data by (metis length_map)
  from ttl have tlen: "length trows = 15"
    using length_transactions_data by (metis length_map)
  show ?thesis
  proof (intro exI conjI)
    show "create_example_databases (DATABASES base_dir) (sqlite interp) w =
       (Inr (), w\<lparr>files := (files w)
                   (?fp := recreated ''flights'' flights_columns frows (files w ?fp),
                    ?tp := recreated ''transactions'' transactions_columns trows (files w ?tp)),
                  opened := opened w + 2, closed := closed w + 2\<rparr>)" by (rule run)
    show "map tl frows = flights_data" by (rule ftl)
    show "length frows = 10" by (rule flen)
    show "distinct frows" by (rule keyed_rows_distinct [OF fhd])
    show "map tl trows = transactions_data" by (rule ttl)
    show "length trows = 15" by (rule tlen)
    show "distinct trows" by (rule keyed_rows_distinct [OF thd])
  qed
qed


section \<open>Seeding twice\<close>




section \<open>\<open>get_schema\<close> on the SQLite model\<close>

lemma query_creates_quoted_table:
  "query_database (DATABASES ''/app'') (sqlite three_statements) ''flights'' create_quoted_sql
     empty_world =
   (Inr \<lparr>success = True, columns = [], data = [], error = None\<rparr>, quoted_world)"
  by (simp add: query_database_def get_connection_def DATABASES_def sqlite_def sq_connect_def
      three_statements_def count_flights_sql_def create_quoted_sql_def sq_create_table_as_def
      index_named_def sq_ddl_def conn_close_def empty_world_def quoted_world_def Let_def)

text \<open>
  Claim C2. The claim is that every connection \<open>get_schema\<close> opens is closed before it
  returns, also when reading a table's columns raises. The program does otherwise:
  \<open>conn.close()\<close> is the last statement of the loop body, outside any \<open>try\<close>. After
  \<open>query_database\<close> has created a table named \<open>a'b\<close> in the \<open>flights\<close> database,
  \<open>PRAGMA table_info('a'b')\<close> is a syntax error; \<open>get_schema\<close> raises it, and the
  world it leaves has two connections opened and one closed: its own is still open.
\<close>

theorem get_schema_leaves_connection_open:
  "query_database (DATABASES ''/app'') (sqlite three_statements) ''flights'' create_quoted_sql
     empty_world =
   (Inr \<lparr>success = True, columns = [], data = [], error = None\<rparr>, quoted_world)
   \<and> get_schema (DATABASES ''/app'') (sqlite three_statements) quoted_world =
       (Inl (SqliteError ''near \"b\": syntax error''), quoted_world\<lparr>opened := 2\<rparr>)
   \<and> closed quoted_world = 1"
proof -
  have leak: "get_schema (DATABASES ''/app'') (sqlite three_statements) quoted_world =
       (Inl (SqliteError ''near \"b\": syntax error''), quoted_world\<lparr>opened := 2\<rparr>)"
    by (simp add: get_schema_def DATABASES_def sqlite_def sq_connect_def
        sq_select_user_tables_def sq_pragma_table_info_def apostrophe_def syntax_error_at_def
        is_word_char_def is_blank_char_def like_sqlite_def conn_abandon_def quoted_world_def
        Let_def)
  have "closed quoted_world = 1" by (simp add: quoted_world_def)
  with query_creates_quoted_table leak show ?thesis by simp
qed

lemma columns_loop_append: "columns_loop rows acc = acc @ map html_repr rows"
  by (induction rows arbitrary: acc) simp_all

text \<open>
  Claim C8. The claim is that for every table \<open>get_schema\<close> returns the table's columns
  in declaration order. The program does otherwise for a table whose name holds an
  apostrophe: the name is put into \<open>PRAGMA table_info('...')\<close> as it is. With the
  tables \<open>a\<close> (column x) and \<open>a')--\<close> (columns y, z) in the \<open>flights\<close> database, the
  statement built for the second table is \<open>PRAGMA table_info('a')--')\<close>, which asks
  for the table \<open>a\<close>: \<open>get_schema\<close> returns, and under the name \<open>a')--\<close> it lists the
  column x of the other table, not y and z.
\<close>

theorem get_schema_lists_another_tables_columns:
  "get_schema (DATABASES ''/app'') (sqlite three_statements) shadow_world =
     (Inr [(''flights'',
            [(''a'', [''x <span class='badge bg-primary ms-1'>INT</span>'']),
             (''a')--'', [''x <span class='badge bg-primary ms-1'>INT</span>''])]),
           (''transactions'', [])],
      shadow_world\<lparr>opened := 2, closed := 2\<rparr>)
   \<and> columns_loop (table_info_of ''a')--'' (files shadow_world ''/app/flights.db'')) [] =
       [''y <span class='badge bg-success ms-1'>TEXT</span>'',
        ''z <span class='badge bg-success ms-1'>TEXT</span>'']"
proof -
  have html: "columns_loop (table_info_rows [plain_column ''x'' ''INT'']) [] =
      [''x <span class='badge bg-primary ms-1'>INT</span>'']"
    "columns_loop (table_info_rows [plain_column ''y'' ''TEXT'', plain_column ''z'' ''TEXT'']) [] =
      [''y <span class='badge bg-success ms-1'>TEXT</span>'',
       ''z <span class='badge bg-success ms-1'>TEXT</span>'']"
    by (simp_all add: columns_loop_append table_info_rows_def plain_column_def html_repr_def
        col_type_of_def color_class_of_def any_keyword_def upper_def upper_char_def
        latin1_small_def latin1_capital_def sublist_code Let_def enumerate_eq_zip)
  have run: "get_schema (DATABASES ''/app'') (sqlite three_statements) shadow_world =
     (Inr [(''flights'',
            [(''a'', columns_loop (table_info_rows [plain_column ''x'' ''INT'']) []),
             (''a')--'', columns_loop (table_info_rows [plain_column ''x'' ''INT'']) [])]),
           (''transactions'', [])],
      shadow_world\<lparr>opened := 2, closed := 2\<rparr>)"
    by (simp add: get_schema_def DATABASES_def sqlite_def sq_connect_def
        sq_select_user_tables_def sq_pragma_table_info_def apostrophe_def table_info_of_def
        is_blank_char_def like_sqlite_def conn_close_def shadow_world_def
        same_name_def ascii_upper_def ascii_upper_char_def Let_def fun_eq_iff)
  have own: "table_info_of ''a')--'' (files shadow_world ''/app/flights.db'') =
      table_info_rows [plain_column ''y'' ''TEXT'', plain_column ''z'' ''TEXT'']"
    by (simp add: table_info_of_def shadow_world_def same_name_def ascii_upper_def
        ascii_upper_char_def)
  from run own html show ?thesis by simp
qed

lemma tables_loop_sqlite_entry:
  assumes "tables_loop (sqlite interp) tables c d = (Inr d', c')"
    and "pragma_table_info (sqlite interp) (apostrophe @ n @ apostrophe) c = (Inr rows, c)"
    and "n \<in> set tables \<or> map_of d n = Some (columns_loop rows [])"
  shows "map_of d' n = Some (columns_loop rows [])"
  using assms
proof (induction tables arbitrary: d)
  case Nil
  then show ?case by simp
next
  case (Cons table tables)
  obtain r c1 where p: "pragma_table_info (sqlite interp) (apostrophe @ table @ apostrophe) c = (r, c1)"
    by (cases "pragma_table_info (sqlite interp) (apostrophe @ table @ apostrophe) c")
  have c1: "c1 = c"
    using p sq_pragma_table_info_conn [of "apostrophe @ table @ apostrophe" c]
    by (simp add: sqlite_def)
  from Cons.prems(1) p obtain rows1 where r: "r = Inr rows1"
    by (cases r) auto
  let ?d1 = "AList.update table (columns_loop rows1 []) d"
  from Cons.prems(1) p r c1 have rest: "tables_loop (sqlite interp) tables c ?d1 = (Inr d', c')"
    by simp
  have "n \<in> set tables \<or> map_of ?d1 n = Some (columns_loop rows [])"
  proof (cases "table = n")
    case True
    with p r c1 Cons.prems(2) have "rows1 = rows" by simp
    with True show ?thesis by (simp add: update_conv')
  next
    case False
    with Cons.prems(3) show ?thesis by (auto simp: update_conv')
  qed
  from Cons.IH [OF rest Cons.prems(2) this] show ?case .
qed

lemma flights_html:
  "columns_loop (table_info_rows flights_columns) [] =
     [''flight_id <span class='badge bg-primary ms-1'>INTEGER</span>'',
      ''airline <span class='badge bg-success ms-1'>TEXT</span>'',
      ''origin <span class='badge bg-success ms-1'>TEXT</span>'',
      ''destination <span class='badge bg-success ms-1'>TEXT</span>'',
      ''departure_date <span class='badge bg-success ms-1'>TEXT</span>'',
      ''arrival_date <span class='badge bg-success ms-1'>TEXT</span>'',
      ''status <span class='badge bg-success ms-1'>TEXT</span>'',
      ''price <span class='badge bg-primary ms-1'>REAL</span>'']"
  by (simp add: columns_loop_append table_info_rows_def flights_columns_def key_column_def
      plain_column_def html_repr_def col_type_of_def color_class_of_def any_keyword_def
      upper_def upper_char_def latin1_small_def latin1_capital_def sublist_code Let_def enumerate_eq_zip)

lemma sqlite_select_flights:
  "select_user_tables (sqlite interp)
     \<lparr>committed = recreated ''flights'' cols rows db,
      working = recreated ''flights'' cols rows db, in_txn = False\<rparr> = (Inr tables, c1)
   \<Longrightarrow> ''flights'' \<in> set tables
       \<and> c1 = \<lparr>committed = recreated ''flights'' cols rows db,
                working = recreated ''flights'' cols rows db, in_txn = False\<rparr>"
  by (auto simp: sqlite_def sq_select_user_tables_def recreated_def like_sqlite_def
      ascii_upper_def ascii_upper_char_def)

lemma sqlite_pragma_flights:
  assumes "\<not> name_blocked ''flights'' db"
  shows "pragma_table_info (sqlite interp) (apostrophe @ ''flights'' @ apostrophe)
           \<lparr>committed = old, working = recreated ''flights'' cols rows db, in_txn = False\<rparr> =
         (Inr (table_info_rows cols),
          \<lparr>committed = old, working = recreated ''flights'' cols rows db, in_txn = False\<rparr>)"
proof -
  have "table_info_of ''flights'' (recreated ''flights'' cols rows db) = table_info_rows cols"
    by (simp add: table_info_of_def recreated_def find_relation_append
        after_drop_no_relation [OF assms])
  then show ?thesis
    by (simp add: sqlite_def sq_pragma_table_info_def apostrophe_def is_blank_char_def)
qed

lemma databases_loop_Cons_returns:
  "databases_loop drv ((db_name, db_path) # rest) w schema = (Inr schema', w') \<Longrightarrow>
   \<exists>c tables c1 d c2.
     connect drv db_path (files w db_path) = Inr c
     \<and> select_user_tables drv c = (Inr tables, c1)
     \<and> tables_loop drv tables c1 [] = (Inr d, c2)
     \<and> databases_loop drv rest (conn_close drv db_path c2 (w\<lparr>opened := opened w + 1\<rparr>))
           (AList.update db_name d (AList.update db_name [] schema)) = (Inr schema', w')"
  by (auto simp: Let_def split: sum.splits prod.splits)

lemma databases_loop_keeps_entry:
  "databases_loop drv registry w schema = (Inr schema', w') \<Longrightarrow> n \<notin> fst ` set registry \<Longrightarrow>
   map_of schema' n = map_of schema n"
proof (induction registry arbitrary: w schema)
  case Nil
  then show ?case by simp
next
  case (Cons entry registry)
  obtain db_name db_path where entry: "entry = (db_name, db_path)" by (cases entry)
  from databases_loop_Cons_returns [OF Cons.prems(1) [unfolded entry]]
  obtain d c2 where
    rest: "databases_loop drv registry (conn_close drv db_path c2 (w\<lparr>opened := opened w + 1\<rparr>))
             (AList.update db_name d (AList.update db_name [] schema)) = (Inr schema', w')"
    by blast
  from Cons.prems(2) entry have "n \<noteq> db_name" "n \<notin> fst ` set registry" by auto
  with Cons.IH [OF rest] show ?case by (simp add: update_conv')
qed

text \<open>
  The instance the specification names: in the SQLite model, whenever \<open>get_schema\<close>
  returns a schema right after \<open>create_example_databases\<close> has run on a world in which
  its two table names are not taken by a view or an index, the entry of the table
  \<open>flights\<close> of the database \<open>flights\<close> lists flight_id, airline, origin, destination,
  departure_date, arrival_date, status, price, in this order.
\<close>

lemma flights_columns_after_seeding:
  assumes ffree: "\<not> name_blocked ''flights'' (files w (base_dir @ ''/flights.db''))"
    and tfree: "\<not> name_blocked ''transactions'' (files w (base_dir @ ''/transactions.db''))"
    and seed: "create_example_databases (DATABASES base_dir) (sqlite interp) w = (r, w1)"
    and ret: "get_schema (DATABASES base_dir) (sqlite interp) w1 = (Inr schema, w2)"
  shows "\<exists>tables_dict. map_of schema ''flights'' = Some tables_dict
            \<and> map_of tables_dict ''flights'' =
                Some [''flight_id <span class='badge bg-primary ms-1'>INTEGER</span>'',
                      ''airline <span class='badge bg-success ms-1'>TEXT</span>'',
                      ''origin <span class='badge bg-success ms-1'>TEXT</span>'',
                      ''destination <span class='badge bg-success ms-1'>TEXT</span>'',
                      ''departure_date <span class='badge bg-success ms-1'>TEXT</span>'',
                      ''arrival_date <span class='badge bg-success ms-1'>TEXT</span>'',
                      ''status <span class='badge bg-success ms-1'>TEXT</span>'',
                      ''price <span class='badge bg-primary ms-1'>REAL</span>'']"
proof -
  let ?fp = "base_dir @ ''/flights.db''" and ?tp = "base_dir @ ''/transactions.db''"
  let ?drv = "sqlite interp"
  from create_example_databases_sqlite [OF ffree tfree, of interp] seed
  obtain frows trows where
    w1: "w1 = w\<lparr>files := (files w)
                   (?fp := recreated ''flights'' flights_columns frows (files w ?fp),
                    ?tp := recreated ''transactions'' transactions_columns trows (files w ?tp)),
                  opened := opened w + 2, closed := closed w + 2\<rparr>"
    by auto
  let ?db = "recreated ''flights'' flights_columns frows (files w ?fp)"
  let ?c = "\<lparr>committed = ?db, working = ?db, in_txn = False\<rparr>"
  have fp: "files w1 ?fp = ?db" by (simp add: w1)
  have loop: "databases_loop ?drv ((''flights'', ?fp) # [(''transactions'', ?tp)]) w1 [] =
      (Inr schema, w2)"
    using ret unfolding get_schema_def DATABASES_def .
  from databases_loop_Cons_returns [OF loop] obtain c tables c1 d1 c2 where
    conn: "connect ?drv ?fp (files w1 ?fp) = Inr c"
    and sel: "select_user_tables ?drv c = (Inr tables, c1)"
    and tl: "tables_loop ?drv tables c1 [] = (Inr d1, c2)"
    and rest: "databases_loop ?drv [(''transactions'', ?tp)]
                 (conn_close ?drv ?fp c2 (w1\<lparr>opened := opened w1 + 1\<rparr>))
                 (AList.update ''flights'' d1 (AList.update ''flights'' [] [])) = (Inr schema, w2)"
    by blast
  from conn have c: "c = ?c"
    by (simp add: fp sqlite_def sq_connect_def)
  from sqlite_select_flights [of interp flights_columns frows "files w ?fp" tables c1] sel c
  have mem: "''flights'' \<in> set tables" and c1: "c1 = ?c" by simp_all
  from tables_loop_sqlite_entry [OF tl [unfolded c1] sqlite_pragma_flights [OF ffree]] mem
  have d1: "map_of d1 ''flights'' = Some (columns_loop (table_info_rows flights_columns) [])"
    by simp
  from databases_loop_keeps_entry [OF rest, of "''flights''"]
  have "map_of schema ''flights'' = Some d1"
    by (simp add: update_conv')
  with d1 show ?thesis unfolding flights_html by simp
qed


section \<open>The claims at concrete inputs\<close>


text \<open>The invariant of results at a concrete input: the result returned for \<open>SELEC 1\<close>.\<close>

theorem query_result_invariant_witness:
  "fst (query_database (DATABASES ''/app'') (sqlite three_statements) ''flights'' ''SELEC 1''
          empty_world)
     = Inr (error_result ''near \"SELEC\": syntax error'')
   \<and> \<not> success (error_result ''near \"SELEC\": syntax error'')
   \<and> columns (error_result ''near \"SELEC\": syntax error'') = []
   \<and> data (error_result ''near \"SELEC\": syntax error'') = []
   \<and> error (error_result ''near \"SELEC\": syntax error'') \<noteq> None"
proof -
  have h: "fst (query_database (DATABASES ''/app'') (sqlite three_statements) ''flights''
                 ''SELEC 1'' empty_world)
           = Inr (error_result ''near \"SELEC\": syntax error'')"
    by (simp add: query_database_def get_connection_def DATABASES_def sqlite_def sq_connect_def
        three_statements_def count_flights_sql_def create_quoted_sql_def handle_exn_def
        empty_world_def)
  from query_result_invariant [OF h] h show ?thesis by (simp add: error_result_def)
qed

text \<open>Reading only, at a concrete input: a call of \<open>get_schema\<close> that raises changes no file.\<close>

theorem get_schema_read_only_witness:
  "fst (get_schema (DATABASES ''/app'') (sqlite three_statements) quoted_world)
     = Inl (SqliteError ''near \"b\": syntax error'')
   \<and> files (snd (get_schema (DATABASES ''/app'') (sqlite three_statements) quoted_world))
       = files quoted_world"
proof -
  have h: "metadata_reads_only (sqlite three_statements)"
    by (rule sqlite_metadata_reads_only)
  have r: "fst (get_schema (DATABASES ''/app'') (sqlite three_statements) quoted_world)
       = Inl (SqliteError ''near \"b\": syntax error'')"
    by (simp add: get_schema_def DATABASES_def sqlite_def sq_connect_def
        sq_select_user_tables_def sq_pragma_table_info_def apostrophe_def syntax_error_at_def
        is_word_char_def is_blank_char_def like_sqlite_def conn_abandon_def quoted_world_def
        Let_def)
  from get_schema_read_only [OF h, of "DATABASES ''/app''" quoted_world] r
  show ?thesis by simp
qed

text \<open>
  Right after seeding a world in which the two table names are free, counting the
  flights returns the single row 10.
\<close>

lemma count_after_seeding:
  assumes ffree: "\<not> name_blocked ''flights'' (files w (base_dir @ ''/flights.db''))"
    and tfree: "\<not> name_blocked ''transactions'' (files w (base_dir @ ''/transactions.db''))"
    and seed: "create_example_databases (DATABASES base_dir) (sqlite three_statements) w = (r, w1)"
  shows "fst (query_database (DATABASES base_dir) (sqlite three_statements) ''flights''
                count_flights_sql w1)
         = Inr \<lparr>success = True, columns = [''n''], data = [[CInt 10]], error = None\<rparr>"
proof -
  from create_example_databases_sqlite [OF ffree tfree, of three_statements] seed
  obtain frows trows where
    w1: "w1 = w\<lparr>files := (files w)
                   (base_dir @ ''/flights.db'' :=
                      recreated ''flights'' flights_columns frows
                        (files w (base_dir @ ''/flights.db'')),
                    base_dir @ ''/transactions.db'' :=
                      recreated ''transactions'' transactions_columns trows
                        (files w (base_dir @ ''/transactions.db''))),
                  opened := opened w + 2, closed := closed w + 2\<rparr>"
    and len: "length frows = 10"
    by auto
  have "find_relation ''flights''
          (recreated ''flights'' flights_columns frows (files w (base_dir @ ''/flights.db'')))
        = Some (''flights'', Table \<lparr>t_columns = flights_columns, t_rows = frows,
                                     t_seq = int (length frows)\<rparr>)"
    by (simp add: recreated_def find_relation_append after_drop_no_relation [OF ffree])
  then show ?thesis
    using len
    by (simp add: w1 query_database_def get_connection_def DATABASES_def sqlite_def
        sq_connect_def three_statements_def conn_close_def Let_def)
qed

text \<open>
  Rectangular results at a concrete input: counting the flights right after seeding
  gives one row of one cell, 10.
\<close>

theorem query_database_rows_match_columns_witness:
  "fst (query_database (DATABASES ''/app'') (sqlite three_statements) ''flights''
          count_flights_sql seeded_world)
     = Inr \<lparr>success = True, columns = [''n''], data = [[CInt 10]], error = None\<rparr>
   \<and> list_all (\<lambda>row. length row = length [''n'']) [[CInt 10]]"
proof -
  have wf: "execute (sqlite three_statements) count_flights_sql c = (Inr cur, c1)
              \<Longrightarrow> rectangular cur" for c cur c1
    by (auto simp: sqlite_def three_statements_def rectangular_def
        split: option.splits prod.splits sq_object.splits)
  have free: "\<not> name_blocked ''flights'' (files empty_world (''/app'' @ ''/flights.db''))"
    "\<not> name_blocked ''transactions'' (files empty_world (''/app'' @ ''/transactions.db''))"
    by (simp_all add: empty_world_def name_blocked_def)
  have ret: "fst (query_database (DATABASES ''/app'') (sqlite three_statements) ''flights''
                    count_flights_sql seeded_world)
             = Inr \<lparr>success = True, columns = [''n''], data = [[CInt 10]], error = None\<rparr>"
    by (rule count_after_seeding [OF free, of
          "fst (create_example_databases (DATABASES ''/app'') (sqlite three_statements) empty_world)"])
       (simp add: seeded_world_def)
  have ok: "success \<lparr>success = True, columns = [''n''], data = [[CInt 10]], error = None\<rparr>"
    by simp
  from query_database_rows_match_columns [OF wf ret ok] ret show ?thesis by simp
qed


end
